theory Spec2Isabelle
  imports Complex_Main
begin

section \<open>The LSF helper of toil: \<^verbatim>\<open>src/toil/batchSystems/lsfHelper.py\<close>\<close>

text \<open>
  The module resolves the memory unit and two scheduling flags of an LSF cluster by asking
  two administrative commands and a configuration file, in that order, and converts a
  memory quantity into the resolved unit.

  Conventions of the embedding:
  \<^item> a Python \<^verbatim>\<open>str\<close> is a \<^typ>\<open>string\<close>; the module is Python 2 code made
    compatible with \<^verbatim>\<open>futurize\<close>, so a string is a byte string, its white space is
    the six ASCII characters and \<^verbatim>\<open>upper\<close> acts on the ASCII letters;
  \<^item> a Python \<^verbatim>\<open>float\<close> is a double: a rational number that the binary64 format
    holds, an infinity or a NaN; every operation rounds its exact result to the
    nearest double, ties to even, and a result beyond the largest double is an infinity;
  \<^item> a Python \<^verbatim>\<open>int\<close> is an \<^typ>\<open>int\<close>, and a quantity is an int or a float;
  \<^item> an exception is a value of \<open>error\<close>, and a function that may raise returns
    \<open>error + 'a\<close>;
  \<^item> the outside world (the two commands, the environment, the file system) is a record
    that the functions read; nothing is written.
\<close>

subsection \<open>Strings\<close>

text \<open>\<^verbatim>\<open>s.startswith("#")\<close>.\<close>

fun startswith_hash :: "string \<Rightarrow> bool" where
  "startswith_hash [] = False"
| "startswith_hash (c # cs) = (c = CHR ''#'')"

text \<open>
  \<^verbatim>\<open>s.split(sep)\<close> for a one-character separator: the string is cut at every occurrence
  of the separator, so the result has one more element than there are separators.
\<close>

fun split_str :: "char \<Rightarrow> string \<Rightarrow> string list" where
  "split_str sep [] = [[]]"
| "split_str sep (c # cs) =
     (if c = sep then [] # split_str sep cs
      else (case split_str sep cs of
              [] \<Rightarrow> [[c]]
            | p # ps \<Rightarrow> (c # p) # ps))"

text \<open>\<^verbatim>\<open>s.strip()\<close>: white space is removed at both ends.\<close>

definition is_space :: "char \<Rightarrow> bool" where
  "is_space c \<longleftrightarrow> c \<in> set [CHR '' '', CHR 0x09, CHR 0x0A, CHR 0x0B, CHR 0x0C, CHR 0x0D]"

definition strip :: "string \<Rightarrow> string" where
  "strip s = rev (dropWhile is_space (rev (dropWhile is_space s)))"

text \<open>\<^verbatim>\<open>s.upper()\<close>: the lower-case ASCII letters are replaced, everything else is kept.\<close>

definition upper_char :: "char \<Rightarrow> char" where
  "upper_char c =
     (case map_of (zip ''abcdefghijklmnopqrstuvwxyz'' ''ABCDEFGHIJKLMNOPQRSTUVWXYZ'') c of
        None \<Rightarrow> c
      | Some u \<Rightarrow> u)"

definition upper :: "string \<Rightarrow> string" where
  "upper s = map upper_char s"

subsection \<open>The tokenizer\<close>

text \<open>
  \<^verbatim>\<open>
  def tokenize_conf_stream(conf_handle):
      for line in conf_handle:
          if line.startswith("#"):
              continue
          tokens = line.split("=")
          if len(tokens) != 2:
              continue
          yield (tokens[0].strip(), tokens[1].strip())
  \<close>
  The generator is read in order by its consumers, which stop at the first entry they
  want; since producing an entry has no effect, the list of all entries models it.
\<close>

fun tokenize_conf_stream :: "string list \<Rightarrow> (string \<times> string) list" where
  "tokenize_conf_stream [] = []"
| "tokenize_conf_stream (line # rest) =
     (if startswith_hash line then tokenize_conf_stream rest
      else (case split_str CHR ''='' line of
              [k, v] \<Rightarrow> (strip k, strip v) # tokenize_conf_stream rest
            | _ \<Rightarrow> tokenize_conf_stream rest))"

text \<open>
  The tokenizer as the specification words it: a line that does not begin with \<open>#\<close> is
  cut at its first \<open>=\<close> into the part before and the part after, and a line that cannot
  be cut so (it has no \<open>=\<close>) is skipped.
\<close>

fun split_first_eq :: "string \<Rightarrow> (string \<times> string) option" where
  "split_first_eq [] = None"
| "split_first_eq (c # cs) =
     (if c = CHR ''='' then Some ([], cs)
      else (case split_first_eq cs of
              None \<Rightarrow> None
            | Some (k, v) \<Rightarrow> Some (c # k, v)))"

fun tokenize_first_eq_spec :: "string list \<Rightarrow> (string \<times> string) list" where
  "tokenize_first_eq_spec [] = []"
| "tokenize_first_eq_spec (line # rest) =
     (if startswith_hash line then tokenize_first_eq_spec rest
      else (case split_first_eq line of
              Some (k, v) \<Rightarrow> (strip k, strip v) # tokenize_first_eq_spec rest
            | None \<Rightarrow> tokenize_first_eq_spec rest))"

text \<open>The number of \<open>=\<close> signs of a line.\<close>

definition count_eq :: "string \<Rightarrow> nat" where
  "count_eq line = length (filter (\<lambda>c. c = CHR ''='') line)"

subsection \<open>Floating point numbers\<close>

text \<open>
  The value of a float. The sign of a zero is not kept: nothing here depends on it.
\<close>

datatype pyfloat = Finite rat | PosInf | NegInf | NaN

text \<open>The number of binary digits of a natural number.\<close>

fun bit_length :: "nat \<Rightarrow> nat" where
  "bit_length n = (if n = 0 then 0 else Suc (bit_length (n div 2)))"

declare bit_length.simps [simp del]

text \<open>For a positive \<open>a\<close>, the integer \<open>i\<close> with \<open>2 ^ i \<le> a < 2 ^ (i + 1)\<close>.\<close>

definition ilog2 :: "rat \<Rightarrow> int" where
  "ilog2 a = (if 1 \<le> a then int (bit_length (nat \<lfloor>a\<rfloor>)) - 1
              else - int (bit_length (nat (\<lceil>1 / a\<rceil> - 1))))"

text \<open>Rounding to the nearest integer, a tie to the even one.\<close>

definition round_half_even :: "rat \<Rightarrow> int" where
  "round_half_even x =
     (let f = \<lfloor>x\<rfloor>; d = x - of_int f
      in if d < 1 / 2 then f
         else if 1 / 2 < d then f + 1
         else if even f then f else f + 1)"

text \<open>The largest double.\<close>

definition max_double :: rat where
  "max_double = (2 ^ 53 - 1) * 2 ^ 971"

text \<open>
  Rounding a rational number to a double: 53 binary digits are kept, fewer below
  \<open>2 ^ - 1022\<close> where the spacing of the doubles stays \<open>2 ^ - 1074\<close>, and a result
  above the largest double is an infinity.
\<close>

definition round_double :: "rat \<Rightarrow> pyfloat" where
  "round_double x =
     (if x = 0 then Finite 0
      else
        let a = \<bar>x\<bar>;
            e = max (ilog2 a - 52) (- 1074);
            y = of_int (round_half_even (a / 2 powi e)) * 2 powi e
        in if max_double < y then (if 0 < x then PosInf else NegInf)
           else Finite (if 0 < x then y else - y))"

text \<open>A rational number is the value of a double when rounding leaves it as it is.\<close>

definition is_double :: "rat \<Rightarrow> bool" where
  "is_double x \<longleftrightarrow> round_double x = Finite x"

text \<open>A quantity passed to the module: an \<^verbatim>\<open>int\<close> or a \<^verbatim>\<open>float\<close>.\<close>

datatype number = PyInt int | PyFloat pyfloat

datatype error =
    AssertionError string
  | ZeroDivisionError
  | OverflowError
  | ValueError
  | IOError

text \<open>
  \<^verbatim>\<open>float(x)\<close>: a float is returned as it is, an int is rounded to the nearest double,
  and an int too large for a double raises \<^verbatim>\<open>OverflowError\<close>.
\<close>

definition py_float :: "number \<Rightarrow> error + pyfloat" where
  "py_float x =
     (case x of
        PyFloat f \<Rightarrow> Inr f
      | PyInt n \<Rightarrow>
          (case round_double (of_int n) of
             Finite q \<Rightarrow> Inr (Finite q)
           | _ \<Rightarrow> Inl OverflowError))"

text \<open>\<^verbatim>\<open>a * b\<close> on floats; an overflow gives an infinity and does not raise.\<close>

fun float_mul :: "pyfloat \<Rightarrow> pyfloat \<Rightarrow> pyfloat" where
  "float_mul NaN y = NaN"
| "float_mul x NaN = NaN"
| "float_mul (Finite a) (Finite b) = round_double (a * b)"
| "float_mul (Finite a) PosInf = (if a = 0 then NaN else if 0 < a then PosInf else NegInf)"
| "float_mul (Finite a) NegInf = (if a = 0 then NaN else if 0 < a then NegInf else PosInf)"
| "float_mul PosInf (Finite b) = (if b = 0 then NaN else if 0 < b then PosInf else NegInf)"
| "float_mul NegInf (Finite b) = (if b = 0 then NaN else if 0 < b then NegInf else PosInf)"
| "float_mul PosInf PosInf = PosInf"
| "float_mul PosInf NegInf = NegInf"
| "float_mul NegInf PosInf = NegInf"
| "float_mul NegInf NegInf = PosInf"

text \<open>
  \<^verbatim>\<open>a / b\<close> on floats: a zero divisor raises \<^verbatim>\<open>ZeroDivisionError\<close>, an overflow gives
  an infinity and does not raise.
\<close>

fun float_truediv :: "pyfloat \<Rightarrow> pyfloat \<Rightarrow> error + pyfloat" where
  "float_truediv x (Finite b) =
     (if b = 0 then Inl ZeroDivisionError
      else (case x of
              Finite a \<Rightarrow> Inr (round_double (a / b))
            | PosInf \<Rightarrow> Inr (if 0 < b then PosInf else NegInf)
            | NegInf \<Rightarrow> Inr (if 0 < b then NegInf else PosInf)
            | NaN \<Rightarrow> Inr NaN))"
| "float_truediv x NaN = Inr NaN"
| "float_truediv (Finite a) y = Inr (Finite 0)"
| "float_truediv x y = Inr NaN"

text \<open>
  \<^verbatim>\<open>int(x)\<close> on a float truncates toward zero; an infinity raises
  \<^verbatim>\<open>OverflowError\<close> and a NaN \<^verbatim>\<open>ValueError\<close>.
\<close>

definition py_int :: "pyfloat \<Rightarrow> error + int" where
  "py_int x =
     (case x of
        Finite q \<Rightarrow> Inr (if q < 0 then \<lceil>q\<rceil> else \<lfloor>q\<rfloor>)
      | NaN \<Rightarrow> Inl ValueError
      | _ \<Rightarrow> Inl OverflowError)"

subsection \<open>The memory converter\<close>

text \<open>
  \<^verbatim>\<open>
  UNITS = {"B": -2, "KB": -1, "MB": 0, "GB": 1, "TB": 2}
  \<close>
\<close>

definition UNITS_items :: "(string \<times> int) list" where
  "UNITS_items = [(''B'', -2), (''KB'', -1), (''MB'', 0), (''GB'', 1), (''TB'', 2)]"

definition UNITS :: "string \<rightharpoonup> int" where
  "UNITS = map_of UNITS_items"

text \<open>
  \<^verbatim>\<open>"%s not a valid unit, valid units are %s." % (unit, list(UNITS.keys()))\<close>: the list
  is printed as Python prints a list of strings, here with the keys in the order of the
  dictionary display.
\<close>

definition repr_str :: "string \<Rightarrow> string" where
  "repr_str s = [CHR 0x27] @ s @ [CHR 0x27]"

fun join_comma :: "string list \<Rightarrow> string" where
  "join_comma [] = []"
| "join_comma [s] = s"
| "join_comma (s # t # ts) = s @ '', '' @ join_comma (t # ts)"

definition repr_list :: "string list \<Rightarrow> string" where
  "repr_list xs = ''['' @ join_comma (map repr_str xs) @ '']''"

definition invalid_unit_message :: "string \<Rightarrow> string" where
  "invalid_unit_message unit =
     unit @ '' not a valid unit, valid units are '' @ repr_list (map fst UNITS_items) @ ''.''"

text \<open>
  \<^verbatim>\<open>math.pow(b, e)\<close> on two ints: the power as a float, rounded to the nearest double
  (the powers of 1024 that the module asks for are doubles); a zero base with a negative
  exponent raises \<^verbatim>\<open>ValueError\<close> and a result beyond the doubles
  \<^verbatim>\<open>OverflowError\<close>.
\<close>

definition math_pow :: "int \<Rightarrow> int \<Rightarrow> error + pyfloat" where
  "math_pow b e =
     (if b = 0 \<and> e < 0 then Inl ValueError
      else (case round_double (of_int b powi e) of
              Finite q \<Rightarrow> Inr (Finite q)
            | _ \<Rightarrow> Inl OverflowError))"

text \<open>
  \<^verbatim>\<open>old_div(a, b)\<close> of \<^verbatim>\<open>past.utils\<close> on two floats is the true division.
\<close>

definition old_div :: "pyfloat \<Rightarrow> pyfloat \<Rightarrow> error + pyfloat" where
  "old_div a b = float_truediv a b"

text \<open>
  \<^verbatim>\<open>
  def convert_mb(kb, unit):
      UNITS = {...}
      assert unit in UNITS, ("%s not a valid unit, valid units are %s."
                             % (unit, list(UNITS.keys())))
      return int(old_div(float(kb), float(math.pow(1024, UNITS[unit]))))
  \<close>
  The assertion comes first; then \<^verbatim>\<open>float(kb)\<close> is evaluated, then the power, the
  quotient and its integer part.
\<close>

definition convert_mb :: "number \<Rightarrow> string \<Rightarrow> error + int" where
  "convert_mb kb unit =
     (case UNITS unit of
        None \<Rightarrow> Inl (AssertionError (invalid_unit_message unit))
      | Some e \<Rightarrow>
          (case py_float kb of
             Inl err \<Rightarrow> Inl err
           | Inr x \<Rightarrow>
               (case math_pow 1024 e of
                  Inl err \<Rightarrow> Inl err
                | Inr p \<Rightarrow>
                    (case old_div x p of
                       Inl err \<Rightarrow> Inl err
                     | Inr q \<Rightarrow> py_int q))))"

subsection \<open>The outside world\<close>

text \<open>
  What the module reads from its surroundings:
  \<^item> \<open>check_output w cmd\<close> is \<^verbatim>\<open>subprocess.check_output(cmd)\<close>: the standard output
    of the command, or the exception raised when the binary is missing, the command
    exits with a non-zero status, or anything else goes wrong;
  \<^item> \<open>environ_get w v\<close> is \<^verbatim>\<open>os.environ.get(v)\<close>;
  \<^item> \<open>os_walk w d\<close> is \<^verbatim>\<open>os.walk(d)\<close>: the triples of a directory, its
    sub-directories and its files, in the order of the walk;
  \<^item> \<open>open_lines w p\<close> is the list of the lines of the file \<open>p\<close>, or \<open>None\<close> when
    \<^verbatim>\<open>open(p)\<close> raises.
\<close>

datatype exn =
    OSError
  | CalledProcessError int
  | KeyboardInterrupt
  | OtherException

record world =
  check_output :: "string list \<Rightarrow> exn + string"
  environ_get :: "string \<Rightarrow> string option"
  os_walk :: "string \<Rightarrow> (string \<times> string list \<times> string list) list"
  open_lines :: "string \<Rightarrow> string list option"

definition LSB_PARAMS_FILENAME :: string where
  "LSB_PARAMS_FILENAME = ''lsb.params''"

definition LSF_CONF_FILENAME :: string where
  "LSF_CONF_FILENAME = ''lsf.conf''"

definition LSF_CONF_ENV :: "string list" where
  "LSF_CONF_ENV = [''LSF_CONFDIR'', ''LSF_ENVDIR'']"

definition DEFAULT_LSF_UNITS :: string where
  "DEFAULT_LSF_UNITS = ''KB''"

definition DEFAULT_RESOURCE_UNITS :: string where
  "DEFAULT_RESOURCE_UNITS = ''MB''"

text \<open>
  \<^verbatim>\<open>fnmatch.filter(filenames, string)\<close>: the two patterns of the module,
  \<^verbatim>\<open>lsb.params\<close> and \<^verbatim>\<open>lsf.conf\<close>, have no wildcard, so a name matches when it
  is the pattern.
\<close>

definition fnmatch_filter :: "string list \<Rightarrow> string \<Rightarrow> string list" where
  "fnmatch_filter names pat = filter (\<lambda>n. n = pat) names"

text \<open>\<^verbatim>\<open>os.path.join(a, b)\<close> on POSIX paths.\<close>

definition path_join :: "string \<Rightarrow> string \<Rightarrow> string" where
  "path_join a b =
     (if (case b of [] \<Rightarrow> False | c # _ \<Rightarrow> c = CHR ''/'') then b
      else if a = [] \<or> last a = CHR ''/'' then a @ b
      else a @ ''/'' @ b)"

text \<open>
  \<^verbatim>\<open>
  def find(basedir, string):
      matches = []
      for root, dirnames, filenames in os.walk(basedir):
          for filename in fnmatch.filter(filenames, string):
              matches.append(os.path.join(root, filename))
      return matches
  \<close>
\<close>

definition find_files :: "world \<Rightarrow> string \<Rightarrow> string \<Rightarrow> string list" where
  "find_files w basedir string =
     concat (map (\<lambda>(root, dirnames, filenames).
                    map (path_join root) (fnmatch_filter filenames string))
                 (os_walk w basedir))"

text \<open>
  \<^verbatim>\<open>
  def find_first_match(basedir, string):
      matches = find(basedir, string)
      return matches[0] if matches else matches
  \<close>
  The empty list that is returned when nothing matches is only ever tested for truth;
  it is \<open>None\<close> here.
\<close>

definition find_first_match :: "world \<Rightarrow> string \<Rightarrow> string \<Rightarrow> string option" where
  "find_first_match w basedir string =
     (case find_files w basedir string of
        [] \<Rightarrow> None
      | m # _ \<Rightarrow> Some m)"

text \<open>
  \<^verbatim>\<open>
  def get_conf_file(filename, env):
      conf_path = os.environ.get(env)
      if not conf_path:
          return None
      conf_file = find_first_match(conf_path, filename)
      return conf_file
  \<close>
\<close>

definition get_conf_file :: "world \<Rightarrow> string \<Rightarrow> string \<Rightarrow> string option" where
  "get_conf_file w filename env =
     (case environ_get w env of
        None \<Rightarrow> None
      | Some conf_path \<Rightarrow>
          if conf_path = [] then None else find_first_match w conf_path filename)"

text \<open>
  The test \<^verbatim>\<open>if value:\<close> on a value that is a string or \<^verbatim>\<open>None\<close> holds for a
  string that is not empty; \<open>truthy_value\<close> is that string.
\<close>

definition truthy_value :: "string option \<Rightarrow> string option" where
  "truthy_value x =
     (case x of
        None \<Rightarrow> None
      | Some s \<Rightarrow> if s = [] then None else Some s)"

text \<open>
  \<^verbatim>\<open>
  def apply_conf_file(fn, conf_filename):
      for env in LSF_CONF_ENV:
          conf_file = get_conf_file(conf_filename, env)
          if conf_file:
              with open(conf_file) as conf_handle:
                  value = fn(conf_handle)
              if value:
                  return value
      return None
  \<close>
\<close>

fun apply_conf_file_envs ::
  "world \<Rightarrow> (string list \<Rightarrow> string option) \<Rightarrow> string \<Rightarrow> string list \<Rightarrow> error + string option"
where
  "apply_conf_file_envs w fn conf_filename [] = Inr None"
| "apply_conf_file_envs w fn conf_filename (env # envs) =
     (case truthy_value (get_conf_file w conf_filename env) of
        None \<Rightarrow> apply_conf_file_envs w fn conf_filename envs
      | Some conf_file \<Rightarrow>
          (case open_lines w conf_file of
             None \<Rightarrow> Inl IOError
           | Some conf_handle \<Rightarrow>
               (case truthy_value (fn conf_handle) of
                  Some v \<Rightarrow> Inr (Some v)
                | None \<Rightarrow> apply_conf_file_envs w fn conf_filename envs)))"

definition apply_conf_file ::
  "world \<Rightarrow> (string list \<Rightarrow> string option) \<Rightarrow> string \<Rightarrow> error + string option"
where
  "apply_conf_file w fn conf_filename = apply_conf_file_envs w fn conf_filename LSF_CONF_ENV"

text \<open>
  The loop \<^verbatim>\<open>for k, v in tokenize_conf_stream(stream): if k == key: return v\<close>, ending
  in \<^verbatim>\<open>return None\<close>, of the three functions that read a stream.
\<close>

fun first_value :: "string \<Rightarrow> (string \<times> string) list \<Rightarrow> string option" where
  "first_value key [] = None"
| "first_value key ((k, v) # rest) = (if k = key then Some v else first_value key rest)"

definition per_core_reserve_from_stream :: "string list \<Rightarrow> string option" where
  "per_core_reserve_from_stream stream =
     map_option upper (first_value ''RESOURCE_RESERVE_PER_SLOT'' (tokenize_conf_stream stream))"

definition get_lsf_units_from_stream :: "string list \<Rightarrow> string option" where
  "get_lsf_units_from_stream stream =
     first_value ''LSF_UNIT_FOR_LIMITS'' (tokenize_conf_stream stream)"

definition parallel_sched_by_slot_from_stream :: "string list \<Rightarrow> string option" where
  "parallel_sched_by_slot_from_stream stream =
     map_option upper (first_value ''PARALLEL_SCHED_BY_SLOT'' (tokenize_conf_stream stream))"

text \<open>
  \<^verbatim>\<open>
  def apply_bparams(fn):
      cmd = ["bparams", "-a"]
      try:
          output = subprocess.check_output(cmd)
      except:
          return None
      return fn(output.split("\n"))
  \<close>
  and the same for \<^verbatim>\<open>lsadmin showconf lim\<close>.
\<close>

definition bparams_cmd :: "string list" where
  "bparams_cmd = [''bparams'', ''-a'']"

definition lsadmin_cmd :: "string list" where
  "lsadmin_cmd = [''lsadmin'', ''showconf'', ''lim'']"

definition apply_bparams :: "world \<Rightarrow> (string list \<Rightarrow> string option) \<Rightarrow> string option" where
  "apply_bparams w fn =
     (case check_output w bparams_cmd of
        Inl _ \<Rightarrow> None
      | Inr output \<Rightarrow> fn (split_str CHR 0x0A output))"

definition apply_lsadmin :: "world \<Rightarrow> (string list \<Rightarrow> string option) \<Rightarrow> string option" where
  "apply_lsadmin w fn =
     (case check_output w lsadmin_cmd of
        Inl _ \<Rightarrow> None
      | Inr output \<Rightarrow> fn (split_str CHR 0x0A output))"

subsection \<open>The resolvers\<close>

text \<open>
  \<^verbatim>\<open>
  def get_lsf_units(resource=False):
      lsf_units = apply_bparams(get_lsf_units_from_stream)
      if lsf_units:
          return lsf_units
      lsf_units = apply_lsadmin(get_lsf_units_from_stream)
      if lsf_units:
          return lsf_units
      lsf_units = apply_conf_file(get_lsf_units_from_stream, LSF_CONF_FILENAME)
      if lsf_units:
          return lsf_units
      # -R usage units are in MB, not KB by default
      if resource:
          return DEFAULT_RESOURCE_UNITS
      else:
          return DEFAULT_LSF_UNITS
  \<close>
\<close>

definition get_lsf_units :: "world \<Rightarrow> bool \<Rightarrow> error + string" where
  "get_lsf_units w resource =
     (case truthy_value (apply_bparams w get_lsf_units_from_stream) of
        Some lsf_units \<Rightarrow> Inr lsf_units
      | None \<Rightarrow>
     (case truthy_value (apply_lsadmin w get_lsf_units_from_stream) of
        Some lsf_units \<Rightarrow> Inr lsf_units
      | None \<Rightarrow>
     (case apply_conf_file w get_lsf_units_from_stream LSF_CONF_FILENAME of
        Inl err \<Rightarrow> Inl err
      | Inr r \<Rightarrow>
     (case truthy_value r of
        Some lsf_units \<Rightarrow> Inr lsf_units
      | None \<Rightarrow>
          if resource then Inr DEFAULT_RESOURCE_UNITS else Inr DEFAULT_LSF_UNITS))))"

text \<open>
  \<^verbatim>\<open>
  def per_core_reservation():
      per_core = apply_bparams(per_core_reserve_from_stream)
      if per_core:
          if per_core == "Y":
              return True
          else:
              return False
      per_core = apply_lsadmin(per_core_reserve_from_stream)
      if per_core:
          if per_core == "Y":
              return True
          else:
              return False
      per_core = apply_conf_file(per_core_reserve_from_stream, LSB_PARAMS_FILENAME)
      if per_core and per_core == "Y":
          return True
      return False
  \<close>
\<close>

definition per_core_reservation :: "world \<Rightarrow> error + bool" where
  "per_core_reservation w =
     (case truthy_value (apply_bparams w per_core_reserve_from_stream) of
        Some per_core \<Rightarrow> if per_core = ''Y'' then Inr True else Inr False
      | None \<Rightarrow>
     (case truthy_value (apply_lsadmin w per_core_reserve_from_stream) of
        Some per_core \<Rightarrow> if per_core = ''Y'' then Inr True else Inr False
      | None \<Rightarrow>
     (case apply_conf_file w per_core_reserve_from_stream LSB_PARAMS_FILENAME of
        Inl err \<Rightarrow> Inl err
      | Inr r \<Rightarrow>
     (case truthy_value r of
        Some per_core \<Rightarrow> if per_core = ''Y'' then Inr True else Inr False
      | None \<Rightarrow> Inr False))))"

text \<open>\<^verbatim>\<open>parallel_sched_by_slot\<close> is the same function on the key \<^verbatim>\<open>PARALLEL_SCHED_BY_SLOT\<close>.\<close>

definition parallel_sched_by_slot :: "world \<Rightarrow> error + bool" where
  "parallel_sched_by_slot w =
     (case truthy_value (apply_bparams w parallel_sched_by_slot_from_stream) of
        Some by_slot \<Rightarrow> if by_slot = ''Y'' then Inr True else Inr False
      | None \<Rightarrow>
     (case truthy_value (apply_lsadmin w parallel_sched_by_slot_from_stream) of
        Some by_slot \<Rightarrow> if by_slot = ''Y'' then Inr True else Inr False
      | None \<Rightarrow>
     (case apply_conf_file w parallel_sched_by_slot_from_stream LSB_PARAMS_FILENAME of
        Inl err \<Rightarrow> Inl err
      | Inr r \<Rightarrow>
     (case truthy_value r of
        Some by_slot \<Rightarrow> if by_slot = ''Y'' then Inr True else Inr False
      | None \<Rightarrow> Inr False))))"

subsection \<open>The memory parsers\<close>

text \<open>
  \<^verbatim>\<open>
  def parse_memory(mem, resource):
      lsf_unit = get_lsf_units(resource=resource)
      return convert_mb(float(mem) * 1024, lsf_unit)
  \<close>
\<close>

definition parse_memory :: "world \<Rightarrow> number \<Rightarrow> bool \<Rightarrow> error + int" where
  "parse_memory w mem resource =
     (case get_lsf_units w resource of
        Inl err \<Rightarrow> Inl err
      | Inr lsf_unit \<Rightarrow>
          (case py_float mem of
             Inl err \<Rightarrow> Inl err
           | Inr x \<Rightarrow> convert_mb (PyFloat (float_mul x (Finite 1024))) lsf_unit))"


definition parse_memory_limit :: "world \<Rightarrow> number \<Rightarrow> error + int" where
  "parse_memory_limit w mem = parse_memory w mem False"

subsection \<open>Notions used to state the properties\<close>

text \<open>
  A line yields an entry when it does not begin with \<open>#\<close> and has exactly one \<open>=\<close>; the
  entry is the text before the \<open>=\<close> and the text after it, both stripped.
\<close>

definition is_entry_line :: "string \<Rightarrow> bool" where
  "is_entry_line line \<longleftrightarrow> \<not> startswith_hash line \<and> count_eq line = 1"

definition entry_of :: "string \<Rightarrow> string \<times> string" where
  "entry_of line =
     (strip (takeWhile (\<lambda>c. c \<noteq> CHR ''='') line),
      strip (tl (dropWhile (\<lambda>c. c \<noteq> CHR ''='') line)))"

text \<open>
  What a command probe holds for a key: the value of the first entry for the key in the
  output of the command, \<open>None\<close> when the command cannot be run or its output has no
  entry for the key. The value is as the tokenizer leaves it and may be empty.
\<close>

definition command_entry :: "world \<Rightarrow> string list \<Rightarrow> string \<Rightarrow> string option" where
  "command_entry w cmd key =
     (case check_output w cmd of
        Inl _ \<Rightarrow> None
      | Inr output \<Rightarrow> map_of (tokenize_conf_stream (split_str CHR 0x0A output)) key)"

text \<open>
  What the configuration file found through one environment variable holds for a key:
  \<open>Inr None\<close> when the variable is unset or empty, when no file of that name is found,
  or when the file has no entry for the key.
\<close>

definition conf_entry :: "world \<Rightarrow> string \<Rightarrow> string \<Rightarrow> string \<Rightarrow> error + string option" where
  "conf_entry w filename key env =
     (case get_conf_file w filename env of
        None \<Rightarrow> Inr None
      | Some p \<Rightarrow>
          (case open_lines w p of
             None \<Rightarrow> Inl IOError
           | Some ls \<Rightarrow> Inr (map_of (tokenize_conf_stream ls) key)))"

text \<open>
  The resolved value of a key: the first value that is not empty among what the
  \<^verbatim>\<open>bparams\<close> probe, the \<^verbatim>\<open>lsadmin\<close> probe, the file under \<^verbatim>\<open>LSF_CONFDIR\<close>
  and the file under \<^verbatim>\<open>LSF_ENVDIR\<close> hold for it, in that order; the files are
  only read when the commands give nothing.
\<close>

definition file_value :: "world \<Rightarrow> string \<Rightarrow> string \<Rightarrow> error + string option" where
  "file_value w filename key =
     (case conf_entry w filename key ''LSF_CONFDIR'' of
        Inl err \<Rightarrow> Inl err
      | Inr x \<Rightarrow>
          (case truthy_value x of
             Some v \<Rightarrow> Inr (Some v)
           | None \<Rightarrow>
               (case conf_entry w filename key ''LSF_ENVDIR'' of
                  Inl err \<Rightarrow> Inl err
                | Inr y \<Rightarrow> Inr (truthy_value y))))"

definition resolved_value :: "world \<Rightarrow> string \<Rightarrow> string \<Rightarrow> error + string option" where
  "resolved_value w filename key =
     (case truthy_value (command_entry w bparams_cmd key) of
        Some v \<Rightarrow> Inr (Some v)
      | None \<Rightarrow>
          (case truthy_value (command_entry w lsadmin_cmd key) of
             Some v \<Rightarrow> Inr (Some v)
           | None \<Rightarrow> file_value w filename key))"

text \<open>
  An example cluster: what the two commands do, and the lines of the configuration files
  under \<^verbatim>\<open>LSF_CONFDIR\<close> and under \<^verbatim>\<open>LSF_ENVDIR\<close> (\<open>None\<close> when the variable is
  unset). The files of the second directory lie in a sub-directory.
\<close>

definition example_cluster ::
  "exn + string \<Rightarrow> exn + string \<Rightarrow> string list option \<Rightarrow> string list option \<Rightarrow> world"
where
  "example_cluster bparams lsadmin confdir_file envdir_file =
     \<lparr> check_output = (\<lambda>cmd. if cmd = bparams_cmd then bparams
                              else if cmd = lsadmin_cmd then lsadmin
                              else Inl OSError),
       environ_get = (\<lambda>v. if v = ''LSF_CONFDIR'' \<and> confdir_file \<noteq> None then Some ''/conf''
                           else if v = ''LSF_ENVDIR'' \<and> envdir_file \<noteq> None then Some ''/env''
                           else None),
       os_walk = (\<lambda>d. if d = ''/conf'' then [(''/conf'', [], [''lsb.params'', ''lsf.conf''])]
                       else if d = ''/env''
                         then [(''/env'', [''sub''], [''README'']),
                               (''/env/sub'', [], [''lsf.conf'', ''lsb.params''])]
                       else []),
       open_lines = (\<lambda>p. if p = ''/conf/lsf.conf'' \<or> p = ''/conf/lsb.params'' then confdir_file
                          else if p = ''/env/sub/lsf.conf'' \<or> p = ''/env/sub/lsb.params''
                            then envdir_file
                          else None) \<rparr>"

section \<open>Properties\<close>

subsection \<open>Splitting and tokenizing\<close>

lemma split_str_not_Nil: "split_str c s \<noteq> []"
  by (induction s) (auto split: list.splits)

lemma length_split_str: "length (split_str c s) = Suc (length (filter (\<lambda>x. x = c) s))"
  by (induction s) (auto split: list.splits simp: split_str_not_Nil)

lemma split_str_no_sep: "c \<notin> set s \<Longrightarrow> split_str c s = [s]"
  by (induction s) (auto split: list.splits)

lemma split_str_one_sep:
  "length (filter (\<lambda>x. x = c) s) = 1 \<Longrightarrow>
   split_str c s = [takeWhile (\<lambda>x. x \<noteq> c) s, tl (dropWhile (\<lambda>x. x \<noteq> c) s)]"
proof (induction s)
  case Nil
  then show ?case by simp
next
  case (Cons x s)
  show ?case
  proof (cases "x = c")
    case True
    with Cons.prems have "c \<notin> set s"
      by (auto simp: filter_empty_conv)
    with True show ?thesis
      by (simp add: split_str_no_sep)
  next
    case False
    with Cons show ?thesis by simp
  qed
qed

lemma tokenize_line:
  "tokenize_conf_stream (line # rest) =
     (if is_entry_line line then entry_of line # tokenize_conf_stream rest
      else tokenize_conf_stream rest)"
proof (cases "count_eq line = 1")
  case True
  then show ?thesis
    by (simp add: is_entry_line_def entry_of_def count_eq_def split_str_one_sep)
next
  case False
  then have "length (split_str CHR ''='' line) \<noteq> 2"
    by (simp add: length_split_str count_eq_def)
  then have "(case split_str CHR ''='' line of [k, v] \<Rightarrow> f k v | _ \<Rightarrow> g) = g"
    for f and g :: "(string \<times> string) list"
    by (auto split: list.splits)
  with False show ?thesis
    by (simp add: is_entry_line_def)
qed

text \<open>
  C6, as the code has it. The tokenizer skips a line that begins with \<open>#\<close>, cuts every
  other line at every \<open>=\<close>, and yields an entry exactly for the lines that have one
  \<open>=\<close>: the text before it and the text after it, both stripped. The other lines are
  skipped without an error, and the entries come in the order of the lines. The stream
  \<open># comment\<close>, \<open>A=1\<close>, \<open>bad line\<close>, \<open>B = 2\<close> yields \<open>(A, 1)\<close> and \<open>(B, 2)\<close>.
\<close>

theorem tokenize_conf_stream_entries:
  "tokenize_conf_stream lines = map entry_of (filter is_entry_line lines)
   \<and> tokenize_conf_stream [''# comment'', ''A=1'', ''bad line'', ''B = 2'']
       = [(''A'', ''1''), (''B'', ''2'')]"
proof
  show "tokenize_conf_stream lines = map entry_of (filter is_entry_line lines)"
    by (induction lines) (simp_all add: tokenize_line del: tokenize_conf_stream.simps(2))
  show "tokenize_conf_stream [''# comment'', ''A=1'', ''bad line'', ''B = 2'']
          = [(''A'', ''1''), (''B'', ''2'')]"
    by (simp add: strip_def is_space_def)
qed

text \<open>
  C6, as it is stated, fails on a line with two \<open>=\<close> signs: cut at its first \<open>=\<close> the
  line \<open>A=B=C\<close> has the two parts \<open>A\<close> and \<open>B=C\<close>, and the code yields nothing for it.
\<close>

theorem tokenize_first_eq_counterexample:
  "tokenize_first_eq_spec [''A=B=C''] = [(''A'', ''B=C'')]
   \<and> tokenize_conf_stream [''A=B=C''] = []"
  by (simp add: strip_def is_space_def)

subsection \<open>Rounding to a double\<close>


lemma bit_length_0 [simp]: "bit_length 0 = 0"
  by (simp add: bit_length.simps)

lemma bit_length_pos: "0 < n \<Longrightarrow> bit_length n = Suc (bit_length (n div 2))"
  by (simp add: bit_length.simps [of n])

lemma floor_numeral_div [simp]:
  "\<lfloor>numeral a / numeral b :: rat\<rfloor> = numeral a div numeral b"
  using floor_divide_of_int_eq [of "numeral a" "numeral b", where ?'a = rat] by simp

lemma bit_length_bounds: "0 < n \<Longrightarrow> 2 ^ (bit_length n - 1) \<le> n \<and> n < 2 ^ bit_length n"
proof (induction n rule: bit_length.induct)
  case (1 n)
  show ?case
  proof (cases "n div 2 = 0")
    case True
    with "1.prems" have "n = 1" by (simp add: div_eq_0_iff) 
    then show ?thesis by (simp add: bit_length.simps)
  next
    case False
    with "1.prems" "1.IH" have IH: "2 ^ (bit_length (n div 2) - 1) \<le> n div 2" "n div 2 < 2 ^ bit_length (n div 2)"
      by auto
    from False have pos: "0 < bit_length (n div 2)" by (simp add: bit_length.simps [of "n div 2"])
    have bl: "bit_length n = Suc (bit_length (n div 2))"
      using "1.prems" by (simp add: bit_length.simps [of n])
    from pos have q: "(2::nat) ^ (bit_length (n div 2)) = 2 * 2 ^ (bit_length (n div 2) - 1)"
      by (cases "bit_length (n div 2)") auto
    then have p: "(2::nat) ^ (bit_length n - 1) = 2 * 2 ^ (bit_length (n div 2) - 1)"
      "(2::nat) ^ bit_length n = 2 * (2 * 2 ^ (bit_length (n div 2) - 1))"
      using bl by simp_all
    have d: "2 * (n div 2) \<le> n" "n < 2 * (n div 2) + 2"
      by presburger+
    from IH q have "2 * 2 ^ (bit_length (n div 2) - 1) \<le> 2 * (n div 2)"
      "2 * (n div 2) + 2 \<le> 2 * (2 * 2 ^ (bit_length (n div 2) - 1))"
      by linarith+
    with d p show ?thesis by linarith
  qed
qed

lemma p2_mono: "i \<le> j \<Longrightarrow> (2::rat) powi i \<le> 2 powi j"
  by (rule power_int_increasing) simp_all

lemma p2_strict_mono: "i < j \<Longrightarrow> (2::rat) powi i < 2 powi j"
  by (rule power_int_strict_increasing) simp_all

lemma p2_less_imp_less: "(2::rat) powi i < 2 powi j \<Longrightarrow> i < j"
  using p2_mono [of j i] by (cases "i < j") auto

lemma p2_add: "(2::rat) powi (i + j) = 2 powi i * 2 powi j"
  by (rule power_int_add) simp

lemma p2_diff: "(2::rat) powi (i - j) = 2 powi i / 2 powi j"
  by (rule power_int_diff) simp


lemma bit_length_gt0: "0 < n \<Longrightarrow> 0 < bit_length n"
  by (simp add: bit_length_pos)

lemma ilog2_bounds:
  assumes "0 < a"
  shows "2 powi (ilog2 a) \<le> a" and "a < 2 powi (ilog2 a + 1)"
proof -
  have "2 powi (ilog2 a) \<le> a \<and> a < 2 powi (ilog2 a + 1)"
  proof (cases "1 \<le> a")
    case True
    define n where "n = nat \<lfloor>a\<rfloor>"
    define b where "b = bit_length n"
    from True have fl: "1 \<le> \<lfloor>a\<rfloor>" by simp
    then have n: "0 < n" and nr: "(of_nat n :: rat) = of_int \<lfloor>a\<rfloor>"
      by (simp_all add: n_def)
    from n have b: "0 < b" and lo: "2 ^ (b - 1) \<le> n" and hi: "n < 2 ^ b"
      using bit_length_bounds [of n] bit_length_gt0 [of n] by (simp_all add: b_def)
    have il: "ilog2 a = int (b - 1)"
      using True b by (simp add: ilog2_def n_def b_def)
    from lo have "(of_nat (2 ^ (b - 1)) :: rat) \<le> of_nat n"
      by (simp only: of_nat_le_iff)
    then have "(2::rat) ^ (b - 1) \<le> of_int \<lfloor>a\<rfloor>"
      by (simp add: nr)
    also have "\<dots> \<le> a" by simp
    finally have 1: "2 powi (ilog2 a) \<le> a"
      by (simp add: il)
    from hi have "n + 1 \<le> 2 ^ b" by simp
    then have "(of_nat (n + 1) :: rat) \<le> of_nat (2 ^ b)"
      by (simp only: of_nat_le_iff)
    then have "of_int \<lfloor>a\<rfloor> + 1 \<le> (2::rat) ^ b"
      by (simp add: nr)
    moreover have "a < of_int \<lfloor>a\<rfloor> + 1" by linarith
    ultimately have "a < (2::rat) ^ b" by linarith
    moreover have "ilog2 a + 1 = int b"
      using b by (simp add: il)
    ultimately have 2: "a < 2 powi (ilog2 a + 1)"
      by simp
    from 1 2 show ?thesis ..
  next
    case False
    define c where "c = \<lceil>1 / a\<rceil>"
    define n where "n = nat (c - 1)"
    define b where "b = bit_length n"
    from False assms have inv: "1 < 1 / a" by simp
    then have c2: "2 \<le> c" unfolding c_def by linarith
    then have n: "0 < n" and nr: "(of_nat n :: rat) = of_int c - 1"
      by (simp_all add: n_def)
    from n have b: "0 < b" and lo: "2 ^ (b - 1) \<le> n" and hi: "n < 2 ^ b"
      using bit_length_bounds [of n] bit_length_gt0 [of n] by (simp_all add: b_def)
    have il: "ilog2 a = - int b"
      using False by (simp add: ilog2_def n_def b_def c_def)
    have c_lo: "of_int c - 1 < 1 / a" and c_hi: "1 / a \<le> of_int c"
      unfolding c_def by linarith+
    from lo have "(of_nat (2 ^ (b - 1)) :: rat) \<le> of_nat n"
      by (simp only: of_nat_le_iff)
    then have "(2::rat) ^ (b - 1) \<le> of_int c - 1"
      by (simp add: nr)
    with c_lo have "(2::rat) ^ (b - 1) < 1 / a" by linarith
    with assms have "a * 2 ^ (b - 1) < 1"
      by (simp add: field_simps)
    then have "a < 1 / 2 ^ (b - 1)"
      by (simp add: field_simps)
    moreover have "ilog2 a + 1 = - int (b - 1)"
      using b by (simp add: il)
    ultimately have 2: "a < 2 powi (ilog2 a + 1)"
      by (simp add: power_int_minus_divide)
    from hi have "n + 1 \<le> 2 ^ b" by simp
    then have "(of_nat (n + 1) :: rat) \<le> of_nat (2 ^ b)"
      by (simp only: of_nat_le_iff)
    then have "of_int c \<le> (2::rat) ^ b"
      by (simp add: nr)
    with c_hi have "1 / a \<le> (2::rat) ^ b" by linarith
    with assms have "1 \<le> a * 2 ^ b"
      by (simp add: field_simps)
    then have "1 / 2 ^ b \<le> a"
      by (simp add: field_simps)
    then have 1: "2 powi (ilog2 a) \<le> a"
      by (simp add: il power_int_minus_divide)
    from 1 2 show ?thesis ..
  qed
  then show "2 powi (ilog2 a) \<le> a" and "a < 2 powi (ilog2 a + 1)"
    by simp_all
qed

lemma ilog2_less: "0 < a \<Longrightarrow> a < 2 powi j \<Longrightarrow> ilog2 a < j"
  using ilog2_bounds(1) [of a] p2_less_imp_less [of "ilog2 a" j] by linarith


lemma round_half_even_of_int [simp]: "round_half_even (of_int n) = n"
  by (simp add: round_half_even_def)

lemma round_half_even_bounds: "\<lfloor>x\<rfloor> \<le> round_half_even x \<and> round_half_even x \<le> \<lfloor>x\<rfloor> + 1"
  by (simp add: round_half_even_def Let_def)

lemma max_double_less: "max_double < 2 powi 1024"
  by (simp add: max_double_def)

lemma round_double_exact:
  assumes m: "\<bar>m\<bar> < 2 ^ 53" and k: "- 1074 \<le> k"
    and x: "x = of_int m * 2 powi k" and r: "\<bar>x\<bar> \<le> max_double"
  shows "round_double x = Finite x"
proof (cases "x = 0")
  case True
  then show ?thesis by (simp add: round_double_def)
next
  case False
  define a where "a = \<bar>x\<bar>"
  define e where "e = max (ilog2 a - 52) (- 1074)"
  from False have a: "0 < a" by (simp add: a_def)
  have am: "a = of_int \<bar>m\<bar> * 2 powi k"
    by (simp add: a_def x abs_mult)
  have "of_int \<bar>m\<bar> < (2::rat) ^ 53"
    using m by (metis of_int_less_iff of_int_numeral of_int_power)
  then have "a < 2 ^ 53 * 2 powi k"
    unfolding am by (simp add: mult_strict_right_mono)
  also have "\<dots> = 2 powi (53 + k)"
    by (simp add: p2_add)
  finally have "ilog2 a < 53 + k"
    using a by (rule ilog2_less [rotated])
  with k have ek: "e \<le> k"
    by (simp add: e_def)
  then have "a / 2 powi e = of_int \<bar>m\<bar> * 2 powi (k - e)"
    by (simp add: am p2_diff)
  also from ek have "2 powi (k - e) = (of_int (2 ^ nat (k - e)) :: rat)"
    by (simp add: power_int_def)
  finally have eqN: "a / 2 powi e = of_int (\<bar>m\<bar> * 2 ^ nat (k - e))"
    by simp
  have "round_half_even (a / 2 powi e) = \<bar>m\<bar> * 2 ^ nat (k - e)"
    by (simp only: eqN round_half_even_of_int)
  then have "of_int (round_half_even (a / 2 powi e)) * 2 powi e = a / 2 powi e * 2 powi e"
    by (simp only: eqN)
  then have "of_int (round_half_even (a / 2 powi e)) * 2 powi e = a"
    by simp
  with r False show ?thesis
    unfolding round_double_def Let_def a_def [symmetric] e_def [symmetric]
    by (auto simp: a_def)
qed

lemma is_double_repr:
  assumes "is_double x"
  shows "\<exists>m k. \<bar>m\<bar> < 2 ^ 53 \<and> - 1074 \<le> k \<and> x = of_int m * 2 powi k \<and> \<bar>x\<bar> \<le> max_double"
proof (cases "x = 0")
  case True
  then have "\<bar>0::int\<bar> < 2 ^ 53 \<and> - 1074 \<le> (0::int) \<and> x = of_int 0 * 2 powi 0 \<and> \<bar>x\<bar> \<le> max_double"
    by (simp add: max_double_def)
  then show ?thesis by blast
next
  case False
  define a where "a = \<bar>x\<bar>"
  define e where "e = max (ilog2 a - 52) (- 1074)"
  define n where "n = round_half_even (a / 2 powi e)"
  define y where "y = of_int n * (2::rat) powi e"
  from False have a: "0 < a" by (simp add: a_def)
  from assms False have fin: "\<not> max_double < y" and val: "(if 0 < x then y else - y) = x"
    unfolding is_double_def round_double_def Let_def a_def [symmetric] e_def [symmetric]
      n_def [symmetric] y_def [symmetric]
    by (auto split: if_splits)
  from val have ya: "y = a"
    by (auto simp: a_def split: if_splits)
  then have na: "of_int n = a / 2 powi e"
    by (simp add: y_def field_simps)
  have "ilog2 a - 52 \<le> e" by (simp add: e_def)
  then have "ilog2 a + 1 \<le> e + 53" by simp
  then have "(2::rat) powi (ilog2 a + 1) \<le> 2 powi (e + 53)"
    by (rule p2_mono)
  with ilog2_bounds(2) [OF a] have "a < 2 powi (e + 53)" by linarith
  then have "a < 2 powi e * 2 ^ 53"
    by (simp add: p2_add)
  then have "a / 2 powi e < 2 ^ 53"
    by (simp add: field_simps)
  with na have "(of_int n :: rat) < 2 ^ 53" by simp
  then have n_hi: "n < 2 ^ 53"
    by (metis of_int_less_iff of_int_numeral of_int_power)
  from na a have "(0::rat) < of_int n" by simp
  then have n_lo: "0 < n" by simp
  define m where "m = (if 0 < x then n else - n)"
  have "\<bar>m\<bar> < 2 ^ 53" using n_hi n_lo by (simp add: m_def)
  moreover have "- 1074 \<le> e" by (simp add: e_def)
  moreover have "x = of_int m * 2 powi e"
    using val by (auto simp: m_def y_def split: if_splits)
  moreover have "\<bar>x\<bar> \<le> max_double"
    using fin ya by (simp add: a_def)
  ultimately show ?thesis by blast
qed

lemma round_double_tiny:
  assumes "0 < y" and "y < 2 powi (- 1022)"
  shows "\<exists>q. round_double y = Finite q \<and> 0 \<le> q \<and> q < 1"
proof -
  define e where "e = max (ilog2 y - 52) (- 1074)"
  define n where "n = round_half_even (y / 2 powi e)"
  from assms have "ilog2 y < - 1022" by (rule ilog2_less)
  then have e: "e = - 1074" by (simp add: e_def)
  from assms(2) have "y < 2 powi (- 1074) * 2 ^ 52"
    by (simp add: power_int_minus_divide)
  then have hi: "y / 2 powi e < 2 ^ 52"
    unfolding e by (simp add: field_simps)
  from assms(1) have lo: "0 < y / 2 powi e" by simp
  from hi have "\<lfloor>y / 2 powi e\<rfloor> < 2 ^ 52"
    by (simp add: floor_less_iff)
  with round_half_even_bounds [of "y / 2 powi e"] have n_hi: "n \<le> 2 ^ 52"
    unfolding n_def by linarith
  from lo have "0 \<le> \<lfloor>y / 2 powi e\<rfloor>" by simp
  with round_half_even_bounds [of "y / 2 powi e"] have n_lo: "0 \<le> n"
    unfolding n_def by linarith
  define q where "q = of_int n * (2::rat) powi e"
  from n_lo have q0: "0 \<le> q" by (simp add: q_def)
  from n_hi have "(of_int n :: rat) \<le> 2 ^ 52"
    by (metis of_int_le_iff of_int_numeral of_int_power)
  then have "q \<le> 2 ^ 52 * 2 powi e"
    unfolding q_def by (simp add: mult_right_mono)
  also have "\<dots> = 2 powi (- 1022)"
    unfolding e by (simp add: power_int_minus_divide)
  finally have q_hi: "q \<le> 2 powi (- 1022)" .
  then have q1: "q < 1" by (simp add: power_int_minus_divide)
  from q_hi have "\<not> max_double < q"
    by (simp add: max_double_def power_int_minus_divide)
  with assms(1) have "round_double y = Finite q"
    unfolding round_double_def Let_def
    by (simp add: e_def [symmetric] n_def [symmetric] q_def [symmetric])
  with q0 q1 show ?thesis by blast
qed


subsection \<open>The memory converter\<close>

lemma UNITS_None: "unit \<notin> {''B'', ''KB'', ''MB'', ''GB'', ''TB''} \<Longrightarrow> UNITS unit = None"
  by (simp add: UNITS_def UNITS_items_def)

lemma convert_mb_unrecognized:
  "unit \<notin> {''B'', ''KB'', ''MB'', ''GB'', ''TB''} \<Longrightarrow>
   convert_mb x unit = Inl (AssertionError
     (unit @ '' not a valid unit, valid units are ['B', 'KB', 'MB', 'GB', 'TB'].''))"
  by (simp add: convert_mb_def UNITS_None invalid_unit_message_def repr_list_def
      repr_str_def UNITS_items_def)

lemma UNITS_simps:
  "UNITS ''B'' = Some (-2)" "UNITS ''KB'' = Some (-1)" "UNITS ''MB'' = Some 0"
  "UNITS ''GB'' = Some 1" "UNITS ''TB'' = Some 2"
  by (simp_all add: UNITS_def UNITS_items_def)

lemma UNITS_Some: "UNITS u = Some e \<Longrightarrow> - 2 \<le> e \<and> e \<le> 2"
  by (auto simp: UNITS_def UNITS_items_def split: if_splits)

lemma p1024: "(1024::rat) powi e = 2 powi (10 * e)"
proof -
  have "(1024::rat) = 2 powi 10" by simp
  then show ?thesis
    by (simp only: power_int_mult [symmetric])
qed

lemma round_double_scale:
  assumes d: "is_double x" and x0: "0 \<le> x" and r: "x * 2 powi j \<le> max_double"
  shows "\<exists>q. round_double (x * 2 powi j) = Finite q \<and> 0 \<le> q \<and> \<lfloor>q\<rfloor> = \<lfloor>x * 2 powi j\<rfloor>"
proof (cases "x = 0")
  case True
  then show ?thesis by (simp add: round_double_def)
next
  case False
  with x0 have xpos: "0 < x" by simp
  from is_double_repr [OF d] obtain m k
    where m: "\<bar>m\<bar> < 2 ^ 53" and k: "- 1074 \<le> k" and x: "x = of_int m * 2 powi k"
    by blast
  let ?y = "x * 2 powi j"
  have ypos: "0 < ?y" using xpos by simp
  have y: "?y = of_int m * 2 powi (k + j)"
    by (simp add: x p2_add)
  show ?thesis
  proof (cases "- 1074 \<le> k + j")
    case True
    from ypos r have "\<bar>?y\<bar> \<le> max_double" by simp
    with m True y have "round_double ?y = Finite ?y"
      by (rule round_double_exact)
    with ypos show ?thesis by simp
  next
    case False
    then have kj: "k + j \<le> - 1075" by simp
    from m have "m < 2 ^ 53" by linarith
    then have "(of_int m :: rat) < 2 ^ 53"
      by (metis of_int_less_iff of_int_numeral of_int_power)
    then have "?y < 2 ^ 53 * 2 powi (k + j)"
      unfolding y by (simp add: mult_strict_right_mono)
    also from kj have "(2::rat) powi (k + j) \<le> 2 powi (- 1075)"
      by (rule p2_mono)
    then have "(2::rat) ^ 53 * 2 powi (k + j) \<le> 2 ^ 53 * 2 powi (- 1075)"
      by simp
    also have "\<dots> = 2 powi (- 1022)"
      by (simp add: power_int_minus_divide)
    finally have tiny: "?y < 2 powi (- 1022)" .
    from round_double_tiny [OF ypos tiny] obtain q
      where q: "round_double ?y = Finite q" "0 \<le> q" "q < 1"
      by blast
    from tiny have "?y < 1"
      by (simp add: power_int_minus_divide)
    with ypos have "\<lfloor>?y\<rfloor> = 0" by (simp add: floor_eq_iff)
    moreover from q have "\<lfloor>q\<rfloor> = 0" by (simp add: floor_eq_iff)
    ultimately show ?thesis using q by simp
  qed
qed

lemma math_pow_1024:
  assumes "- 2 \<le> e" "e \<le> 2"
  shows "math_pow 1024 e = Inr (Finite (1024 powi e))"
proof -
  have "\<bar>1::int\<bar> < 2 ^ 53" by simp
  moreover have "- 1074 \<le> 10 * e" using assms by simp
  moreover have "(1024::rat) powi e = of_int 1 * 2 powi (10 * e)"
    by (simp add: p1024)
  moreover have "\<bar>(1024::rat) powi e\<bar> \<le> max_double"
  proof -
    have "(1024::rat) powi e \<le> 1024 powi 2"
      using assms by (intro power_int_increasing) simp_all
    also have "\<dots> \<le> max_double" by (simp add: max_double_def)
    finally show ?thesis by simp
  qed
  ultimately have "round_double (1024 powi e) = Finite (1024 powi e)"
    by (rule round_double_exact)
  then show ?thesis
    by (simp add: math_pow_def)
qed

lemma convert_mb_finite:
  assumes u: "UNITS u = Some e" and d: "is_double x" and x0: "0 \<le> x"
    and r: "x / 1024 powi e \<le> max_double"
  shows "convert_mb (PyFloat (Finite x)) u = Inr \<lfloor>x / 1024 powi e\<rfloor>"
proof -
  from UNITS_Some [OF u] have p: "math_pow 1024 e = Inr (Finite (1024 powi e))"
    by (simp add: math_pow_1024)
  have eq: "x / 1024 powi e = x * 2 powi (- (10 * e))"
    by (simp add: p1024 power_int_minus field_simps)
  from round_double_scale [OF d x0, of "- (10 * e)"] r eq obtain q
    where q: "round_double (x / 1024 powi e) = Finite q" "0 \<le> q"
      "\<lfloor>q\<rfloor> = \<lfloor>x / 1024 powi e\<rfloor>"
    by auto
  then show ?thesis
    by (simp add: convert_mb_def u py_float_def p old_div_def py_int_def)
qed


lemma is_double_of_int:
  assumes "\<bar>v\<bar> \<le> 2 ^ 53"
  shows "is_double (of_int v)"
proof (cases "\<bar>v\<bar> = 2 ^ 53")
  case True
  then have "v = 2 * 2 ^ 52 \<or> v = 2 * (- (2 ^ 52))"
    by (simp add: abs_if split: if_splits)
  then obtain m :: int where v: "v = 2 * m" and m: "\<bar>m\<bar> < 2 ^ 53"
    by fastforce
  note m
  moreover have "- 1074 \<le> (1::int)" by simp
  moreover from v have "(of_int v :: rat) = of_int m * 2 powi 1" by simp
  moreover have "\<bar>of_int v :: rat\<bar> \<le> max_double"
  proof -
    from assms have "\<bar>of_int v :: rat\<bar> \<le> 2 ^ 53"
      by (metis of_int_abs of_int_le_iff of_int_numeral of_int_power)
    also have "\<dots> \<le> max_double" by (simp add: max_double_def)
    finally show ?thesis .
  qed
  ultimately show ?thesis
    unfolding is_double_def by (rule round_double_exact)
next
  case False
  with assms have "\<bar>v\<bar> < 2 ^ 53" by simp
  moreover have "- 1074 \<le> (0::int)" by simp
  moreover have "(of_int v :: rat) = of_int v * 2 powi 0" by simp
  moreover have "\<bar>of_int v :: rat\<bar> \<le> max_double"
  proof -
    from assms have "\<bar>of_int v :: rat\<bar> \<le> 2 ^ 53"
      by (metis of_int_abs of_int_le_iff of_int_numeral of_int_power)
    also have "\<dots> \<le> max_double" by (simp add: max_double_def)
    finally show ?thesis .
  qed
  ultimately show ?thesis
    unfolding is_double_def by (rule round_double_exact)
qed

lemma py_float_int: "\<bar>v\<bar> \<le> 2 ^ 53 \<Longrightarrow> py_float (PyInt v) = Inr (Finite (of_int v))"
  using is_double_of_int [of v] by (simp add: py_float_def is_double_def)



lemma floor_quotient_nonneg: "0 \<le> x \<Longrightarrow> 0 \<le> \<lfloor>x / 1024 powi e :: rat\<rfloor>"
  by simp




text \<open>
  C5. For every quantity and every unit symbol outside the five of the table the
  converter fails: the assertion raises with a message that begins with the offending
  symbol and lists the five valid ones. No unit is put in its place.
\<close>

theorem convert_mb_invalid_unit:
  "unit \<notin> {''B'', ''KB'', ''MB'', ''GB'', ''TB''} \<Longrightarrow>
   convert_mb x unit = Inl (AssertionError
     (unit @ '' not a valid unit, valid units are ['B', 'KB', 'MB', 'GB', 'TB'].''))"
  by (simp add: convert_mb_def UNITS_None invalid_unit_message_def repr_list_def
      repr_str_def UNITS_items_def)

theorem convert_mb_invalid_unit_witness:
  "convert_mb (PyInt 7) ''bogus'' = Inl (AssertionError
     ''bogus not a valid unit, valid units are ['B', 'KB', 'MB', 'GB', 'TB'].'')
   \<and> convert_mb (PyFloat (Finite (3 / 2))) ''kb'' = Inl (AssertionError
     ''kb not a valid unit, valid units are ['B', 'KB', 'MB', 'GB', 'TB'].'')"
  using convert_mb_invalid_unit [of "''bogus''" "PyInt 7"]
    convert_mb_invalid_unit [of "''kb''" "PyFloat (Finite (3 / 2))"]
  by simp

subsection \<open>The probes and the resolvers\<close>

lemma first_value_map_of: "first_value key ts = map_of ts key"
  by (induction ts) auto

lemma truthy_value_Some: "truthy_value x = Some v \<longleftrightarrow> x = Some v \<and> v \<noteq> []"
  by (auto simp: truthy_value_def split: option.splits)

lemma truthy_value_None: "truthy_value x = None \<longleftrightarrow> x = None \<or> x = Some []"
  by (auto simp: truthy_value_def split: option.splits)

lemma truthy_value_idem: "truthy_value (truthy_value x) = truthy_value x"
  by (auto simp: truthy_value_def split: option.splits)

lemma truthy_value_upper: "truthy_value (map_option upper x) = map_option upper (truthy_value x)"
  by (auto simp: truthy_value_def upper_def split: option.splits)

lemma upper_char_Y: "upper_char c = CHR ''Y'' \<longleftrightarrow> c = CHR ''Y'' \<or> c = CHR ''y''"
  by (auto simp: upper_char_def split: if_splits)

lemma upper_Y: "upper v = ''Y'' \<longleftrightarrow> v = ''Y'' \<or> v = ''y''"
  by (cases v) (auto simp: upper_def upper_char_Y)

lemma apply_bparams_units:
  "apply_bparams w get_lsf_units_from_stream = command_entry w bparams_cmd ''LSF_UNIT_FOR_LIMITS''"
  by (simp add: apply_bparams_def command_entry_def get_lsf_units_from_stream_def
      first_value_map_of split: sum.splits)

lemma apply_lsadmin_units:
  "apply_lsadmin w get_lsf_units_from_stream = command_entry w lsadmin_cmd ''LSF_UNIT_FOR_LIMITS''"
  by (simp add: apply_lsadmin_def command_entry_def get_lsf_units_from_stream_def
      first_value_map_of split: sum.splits)

lemma apply_bparams_per_core:
  "apply_bparams w per_core_reserve_from_stream
     = map_option upper (command_entry w bparams_cmd ''RESOURCE_RESERVE_PER_SLOT'')"
  by (simp add: apply_bparams_def command_entry_def per_core_reserve_from_stream_def
      first_value_map_of split: sum.splits)

lemma apply_lsadmin_per_core:
  "apply_lsadmin w per_core_reserve_from_stream
     = map_option upper (command_entry w lsadmin_cmd ''RESOURCE_RESERVE_PER_SLOT'')"
  by (simp add: apply_lsadmin_def command_entry_def per_core_reserve_from_stream_def
      first_value_map_of split: sum.splits)

lemma apply_bparams_by_slot:
  "apply_bparams w parallel_sched_by_slot_from_stream
     = map_option upper (command_entry w bparams_cmd ''PARALLEL_SCHED_BY_SLOT'')"
  by (simp add: apply_bparams_def command_entry_def parallel_sched_by_slot_from_stream_def
      first_value_map_of split: sum.splits)

lemma apply_lsadmin_by_slot:
  "apply_lsadmin w parallel_sched_by_slot_from_stream
     = map_option upper (command_entry w lsadmin_cmd ''PARALLEL_SCHED_BY_SLOT'')"
  by (simp add: apply_lsadmin_def command_entry_def parallel_sched_by_slot_from_stream_def
      first_value_map_of split: sum.splits)

lemma path_join_nonempty: "b \<noteq> [] \<Longrightarrow> path_join a b \<noteq> []"
  by (simp add: path_join_def)

lemma find_files_nonempty: "string \<noteq> [] \<Longrightarrow> p \<in> set (find_files w basedir string) \<Longrightarrow> p \<noteq> []"
  by (auto simp: find_files_def fnmatch_filter_def path_join_nonempty)

lemma get_conf_file_truthy:
  "filename \<noteq> [] \<Longrightarrow> truthy_value (get_conf_file w filename env) = get_conf_file w filename env"
proof (cases "get_conf_file w filename env")
  case None
  then show ?thesis by (simp add: truthy_value_def)
next
  case (Some p)
  assume "filename \<noteq> []"
  moreover from Some have "p \<in> set (find_files w (the (environ_get w env)) filename)"
    by (auto simp: get_conf_file_def find_first_match_def split: option.splits if_splits list.splits)
  ultimately have "p \<noteq> []"
    by (rule find_files_nonempty)
  with Some show ?thesis by (simp add: truthy_value_def)
qed

lemma apply_conf_file_envs_step:
  assumes "filename \<noteq> []" and "\<And>ls. fn ls = g (map_of (tokenize_conf_stream ls) key)"
    and "g None = None"
  shows "apply_conf_file_envs w fn filename (env # envs) =
     (case conf_entry w filename key env of
        Inl err \<Rightarrow> Inl err
      | Inr x \<Rightarrow>
          (case truthy_value (g x) of
             Some v \<Rightarrow> Inr (Some v)
           | None \<Rightarrow> apply_conf_file_envs w fn filename envs))"
proof (cases "get_conf_file w filename env")
  case None
  with assms show ?thesis
    by (simp add: conf_entry_def truthy_value_def)
next
  case (Some p)
  with get_conf_file_truthy [OF assms(1), of w env] have "truthy_value (Some p) = Some p"
    by simp
  with Some assms(2) show ?thesis
    by (simp add: conf_entry_def split: option.splits)
qed

lemma apply_conf_file_units:
  "apply_conf_file w get_lsf_units_from_stream ''lsf.conf''
     = file_value w ''lsf.conf'' ''LSF_UNIT_FOR_LIMITS''"
proof -
  have fn: "\<And>ls. get_lsf_units_from_stream ls = id (map_of (tokenize_conf_stream ls) ''LSF_UNIT_FOR_LIMITS'')"
    by (simp add: get_lsf_units_from_stream_def first_value_map_of)
  show ?thesis
    unfolding apply_conf_file_def LSF_CONF_ENV_def file_value_def
    by (simp add: apply_conf_file_envs_step [where g = id, OF _ fn] del: apply_conf_file_envs.simps(2)
        split: sum.splits option.splits)
qed

lemma apply_conf_file_per_core:
  "apply_conf_file w per_core_reserve_from_stream ''lsb.params''
     = map_sum id (map_option upper) (file_value w ''lsb.params'' ''RESOURCE_RESERVE_PER_SLOT'')"
proof -
  have fn: "\<And>ls. per_core_reserve_from_stream ls = map_option upper (map_of (tokenize_conf_stream ls) ''RESOURCE_RESERVE_PER_SLOT'')"
    by (simp add: per_core_reserve_from_stream_def first_value_map_of)
  show ?thesis
    unfolding apply_conf_file_def LSF_CONF_ENV_def file_value_def
    by (simp add: apply_conf_file_envs_step [where g = "map_option upper", OF _ fn] truthy_value_upper del: apply_conf_file_envs.simps(2)
        split: sum.splits option.splits)
qed

lemma apply_conf_file_by_slot:
  "apply_conf_file w parallel_sched_by_slot_from_stream ''lsb.params''
     = map_sum id (map_option upper) (file_value w ''lsb.params'' ''PARALLEL_SCHED_BY_SLOT'')"
proof -
  have fn: "\<And>ls. parallel_sched_by_slot_from_stream ls = map_option upper (map_of (tokenize_conf_stream ls) ''PARALLEL_SCHED_BY_SLOT'')"
    by (simp add: parallel_sched_by_slot_from_stream_def first_value_map_of)
  show ?thesis
    unfolding apply_conf_file_def LSF_CONF_ENV_def file_value_def
    by (simp add: apply_conf_file_envs_step [where g = "map_option upper", OF _ fn] truthy_value_upper del: apply_conf_file_envs.simps(2)
        split: sum.splits option.splits)
qed

lemma file_value_truthy: "file_value w f k = Inr x \<Longrightarrow> truthy_value x = x"
  by (auto simp: file_value_def truthy_value_idem truthy_value_Some split: sum.splits option.splits)

lemma get_lsf_units_resolved:
  "get_lsf_units w r =
     (case resolved_value w ''lsf.conf'' ''LSF_UNIT_FOR_LIMITS'' of
        Inl err \<Rightarrow> Inl err
      | Inr None \<Rightarrow> Inr (if r then ''MB'' else ''KB'')
      | Inr (Some v) \<Rightarrow> Inr v)"
  by (auto simp: get_lsf_units_def resolved_value_def apply_bparams_units apply_lsadmin_units
      apply_conf_file_units LSF_CONF_FILENAME_def DEFAULT_RESOURCE_UNITS_def DEFAULT_LSF_UNITS_def
      file_value_truthy
      split: option.splits sum.splits)

lemma per_core_reservation_resolved:
  "per_core_reservation w =
     (case resolved_value w ''lsb.params'' ''RESOURCE_RESERVE_PER_SLOT'' of
        Inl err \<Rightarrow> Inl err
      | Inr x \<Rightarrow> Inr (x = Some ''Y'' \<or> x = Some ''y''))"
  by (auto simp: per_core_reservation_def resolved_value_def apply_bparams_per_core apply_lsadmin_per_core
      apply_conf_file_per_core LSB_PARAMS_FILENAME_def truthy_value_upper upper_Y
      dest: file_value_truthy
      split: option.splits sum.splits)

lemma parallel_sched_by_slot_resolved:
  "parallel_sched_by_slot w =
     (case resolved_value w ''lsb.params'' ''PARALLEL_SCHED_BY_SLOT'' of
        Inl err \<Rightarrow> Inl err
      | Inr x \<Rightarrow> Inr (x = Some ''Y'' \<or> x = Some ''y''))"
  by (auto simp: parallel_sched_by_slot_def resolved_value_def apply_bparams_by_slot apply_lsadmin_by_slot
      apply_conf_file_by_slot LSB_PARAMS_FILENAME_def truthy_value_upper upper_Y
      dest: file_value_truthy
      split: option.splits sum.splits)

text \<open>The definitions that evaluate a resolver on an example cluster.\<close>

lemmas example_eval =
  example_cluster_def get_lsf_units_def per_core_reservation_def parallel_sched_by_slot_def
  apply_bparams_def apply_lsadmin_def apply_conf_file_def LSF_CONF_ENV_def
  LSF_CONF_FILENAME_def LSB_PARAMS_FILENAME_def DEFAULT_LSF_UNITS_def DEFAULT_RESOURCE_UNITS_def
  get_conf_file_def find_first_match_def find_files_def fnmatch_filter_def path_join_def
  truthy_value_def get_lsf_units_from_stream_def per_core_reserve_from_stream_def
  parallel_sched_by_slot_from_stream_def upper_def upper_char_def
  command_entry_def conf_entry_def file_value_def resolved_value_def
  strip_def is_space_def bparams_cmd_def lsadmin_cmd_def

lemma parse_memory_unit:
  "get_lsf_units w r = Inr u \<Longrightarrow>
   parse_memory w m r =
     (case py_float m of
        Inl err \<Rightarrow> Inl err
      | Inr x \<Rightarrow> convert_mb (PyFloat (float_mul x (Finite 1024))) u)"
  by (simp add: parse_memory_def)

lemma two_gigabytes:
  "py_float (PyInt 2) = Inr (Finite 2)" "py_float (PyFloat (Finite 2)) = Inr (Finite 2)"
  "float_mul (Finite 2) (Finite 1024) = Finite 2048" "is_double 2048"
proof -
  show "py_float (PyInt 2) = Inr (Finite 2)"
    using py_float_int [of 2] by simp
  show "py_float (PyFloat (Finite 2)) = Inr (Finite 2)"
    by (simp add: py_float_def)
  show d: "is_double 2048"
    using is_double_of_int [of 2048] by simp
  then show "float_mul (Finite 2) (Finite 1024) = Finite 2048"
    by (simp add: is_double_def)
qed

lemma parse_memory_two_gigabytes:
  assumes "get_lsf_units w r = Inr u" and "UNITS u = Some e"
  shows "parse_memory w (PyInt 2) r = Inr \<lfloor>2048 / 1024 powi e :: rat\<rfloor>"
    and "parse_memory w (PyFloat (Finite 2)) r = Inr \<lfloor>2048 / 1024 powi e :: rat\<rfloor>"
proof -
  have "(1024::rat) powi (- 2) \<le> 1024 powi e"
    using UNITS_Some [OF assms(2)] by (intro power_int_increasing) simp_all
  moreover have "(0::rat) < 1024 powi (- 2)" by simp
  ultimately have "(2048::rat) / 1024 powi e \<le> 2048 / 1024 powi (- 2)"
    by (intro frac_le) simp_all
  also have "\<dots> \<le> max_double"
    by (simp add: max_double_def power_int_minus)
  finally have "convert_mb (PyFloat (Finite 2048)) u = Inr \<lfloor>2048 / 1024 powi e :: rat\<rfloor>"
    using assms(2) two_gigabytes(4) by (intro convert_mb_finite) simp_all
  then show "parse_memory w (PyInt 2) r = Inr \<lfloor>2048 / 1024 powi e :: rat\<rfloor>"
    and "parse_memory w (PyFloat (Finite 2)) r = Inr \<lfloor>2048 / 1024 powi e :: rat\<rfloor>"
    using assms(1) by (simp_all add: parse_memory_unit two_gigabytes del: float_mul.simps)
qed

subsection \<open>The memory parsers\<close>



subsection \<open>Failing commands\<close>

text \<open>
  C7. Whatever \<^verbatim>\<open>check_output\<close> raises (a missing binary, an exit status that is
  not zero, an interrupt, anything else), \<^verbatim>\<open>apply_bparams\<close> and
  \<^verbatim>\<open>apply_lsadmin\<close> return \<^verbatim>\<open>None\<close>, and the resolution goes on: when
  \<^verbatim>\<open>bparams\<close> fails the answer of \<^verbatim>\<open>lsadmin\<close> is taken, and when both fail
  each resolver returns what the configuration files give, or its default.
\<close>

theorem command_probe_failure_is_unavailable:
  "(check_output w bparams_cmd = Inl e \<longrightarrow> apply_bparams w fn = None)
   \<and> (check_output w lsadmin_cmd = Inl e' \<longrightarrow> apply_lsadmin w fn = None)
   \<and> (check_output w bparams_cmd = Inl e
        \<and> command_entry w lsadmin_cmd ''LSF_UNIT_FOR_LIMITS'' = Some v \<and> v \<noteq> []
      \<longrightarrow> get_lsf_units w r = Inr v)
   \<and> (check_output w bparams_cmd = Inl e \<and> check_output w lsadmin_cmd = Inl e'
      \<longrightarrow> get_lsf_units w r =
           (case file_value w ''lsf.conf'' ''LSF_UNIT_FOR_LIMITS'' of
              Inl err \<Rightarrow> Inl err
            | Inr None \<Rightarrow> Inr (if r then ''MB'' else ''KB'')
            | Inr (Some u) \<Rightarrow> Inr u)
         \<and> per_core_reservation w =
           (case file_value w ''lsb.params'' ''RESOURCE_RESERVE_PER_SLOT'' of
              Inl err \<Rightarrow> Inl err
            | Inr x \<Rightarrow> Inr (x = Some ''Y'' \<or> x = Some ''y''))
         \<and> parallel_sched_by_slot w =
           (case file_value w ''lsb.params'' ''PARALLEL_SCHED_BY_SLOT'' of
              Inl err \<Rightarrow> Inl err
            | Inr x \<Rightarrow> Inr (x = Some ''Y'' \<or> x = Some ''y'')))"
  by (simp add: apply_bparams_def apply_lsadmin_def get_lsf_units_resolved
      per_core_reservation_resolved parallel_sched_by_slot_resolved resolved_value_def
      command_entry_def truthy_value_def)

theorem command_probe_failure_is_unavailable_witness:
  "check_output (example_cluster (Inl OSError) (Inr ''LSF_UNIT_FOR_LIMITS = GB'') None None) bparams_cmd
     = Inl OSError
   \<and> apply_bparams (example_cluster (Inl OSError) (Inr ''LSF_UNIT_FOR_LIMITS = GB'') None None)
        get_lsf_units_from_stream = None
   \<and> get_lsf_units (example_cluster (Inl OSError) (Inr ''LSF_UNIT_FOR_LIMITS = GB'') None None) False
       = Inr ''GB''
   \<and> check_output (example_cluster (Inl (CalledProcessError 255)) (Inl KeyboardInterrupt) None None)
        lsadmin_cmd = Inl KeyboardInterrupt
   \<and> apply_lsadmin (example_cluster (Inl (CalledProcessError 255)) (Inl KeyboardInterrupt) None None)
        per_core_reserve_from_stream = None
   \<and> get_lsf_units (example_cluster (Inl (CalledProcessError 255)) (Inl KeyboardInterrupt) None None)
        True = Inr ''MB''
   \<and> per_core_reservation
        (example_cluster (Inl (CalledProcessError 255)) (Inl KeyboardInterrupt) None None) = Inr False"
proof -
  let ?a = "example_cluster (Inl OSError) (Inr ''LSF_UNIT_FOR_LIMITS = GB'') None None"
  let ?b = "example_cluster (Inl (CalledProcessError 255)) (Inl KeyboardInterrupt) None None"
  have a1: "check_output ?a bparams_cmd = Inl OSError"
    by (simp add: example_eval)
  have a2: "command_entry ?a lsadmin_cmd ''LSF_UNIT_FOR_LIMITS'' = Some ''GB''"
    by (simp add: example_eval)
  have b1: "check_output ?b bparams_cmd = Inl (CalledProcessError 255)"
    by (simp add: example_eval)
  have b2: "check_output ?b lsadmin_cmd = Inl KeyboardInterrupt"
    by (simp add: example_eval)
  have b3: "file_value ?b ''lsf.conf'' ''LSF_UNIT_FOR_LIMITS'' = Inr None"
    by (simp add: example_eval)
  have b4: "file_value ?b ''lsb.params'' ''RESOURCE_RESERVE_PER_SLOT'' = Inr None"
    by (simp add: example_eval)
  from a1 a2 b1 b2 b3 b4
    command_probe_failure_is_unavailable
      [where w = ?a and e = OSError and fn = get_lsf_units_from_stream and v = "''GB''"
         and r = False]
    command_probe_failure_is_unavailable
      [where w = ?b and e = "CalledProcessError 255" and e' = KeyboardInterrupt
         and fn = per_core_reserve_from_stream and r = True]
  show ?thesis by simp
qed

subsection \<open>The order of the probes and the defaults\<close>

lemma resolved_value_bparams:
  "command_entry w bparams_cmd key = Some v \<Longrightarrow> v \<noteq> [] \<Longrightarrow>
   resolved_value w filename key = Inr (Some v)"
  by (simp add: resolved_value_def truthy_value_def)

lemma resolved_value_lsadmin:
  "command_entry w bparams_cmd key \<in> {None, Some []} \<Longrightarrow>
   command_entry w lsadmin_cmd key = Some v \<Longrightarrow> v \<noteq> [] \<Longrightarrow>
   resolved_value w filename key = Inr (Some v)"
  by (auto simp: resolved_value_def truthy_value_def)

lemma resolved_value_files:
  "command_entry w bparams_cmd key \<in> {None, Some []} \<Longrightarrow>
   command_entry w lsadmin_cmd key \<in> {None, Some []} \<Longrightarrow>
   resolved_value w filename key = file_value w filename key"
  by (auto simp: resolved_value_def truthy_value_def)

lemma file_value_confdir:
  "conf_entry w filename key ''LSF_CONFDIR'' = Inr (Some v) \<Longrightarrow> v \<noteq> [] \<Longrightarrow>
   file_value w filename key = Inr (Some v)"
  by (simp add: file_value_def truthy_value_def)

lemma file_value_envdir:
  "conf_entry w filename key ''LSF_CONFDIR'' \<in> {Inr None, Inr (Some [])} \<Longrightarrow>
   file_value w filename key =
     (case conf_entry w filename key ''LSF_ENVDIR'' of
        Inl err \<Rightarrow> Inl err
      | Inr y \<Rightarrow> Inr (truthy_value y))"
  by (auto simp: file_value_def truthy_value_def)

text \<open>
  C3, as the code has it. Each resolver asks \<^verbatim>\<open>bparams\<close>, then \<^verbatim>\<open>lsadmin\<close>,
  then the configuration files, and stops at the first probe that holds a value for the
  key that is not empty: a probe that is unavailable, has no entry for the key, or has
  an empty value for it is passed over. When both commands hold a value that is not
  empty, the value of \<^verbatim>\<open>bparams\<close> is returned whatever \<^verbatim>\<open>lsadmin\<close> says.
\<close>

theorem resolver_priority:
  "(command_entry w bparams_cmd ''LSF_UNIT_FOR_LIMITS'' = Some v \<and> v \<noteq> []
      \<longrightarrow> get_lsf_units w r = Inr v)
   \<and> (command_entry w bparams_cmd ''LSF_UNIT_FOR_LIMITS'' \<in> {None, Some []}
       \<and> command_entry w lsadmin_cmd ''LSF_UNIT_FOR_LIMITS'' = Some v \<and> v \<noteq> []
      \<longrightarrow> get_lsf_units w r = Inr v)
   \<and> (command_entry w bparams_cmd ''LSF_UNIT_FOR_LIMITS'' \<in> {None, Some []}
       \<and> command_entry w lsadmin_cmd ''LSF_UNIT_FOR_LIMITS'' \<in> {None, Some []}
       \<and> file_value w ''lsf.conf'' ''LSF_UNIT_FOR_LIMITS'' = Inr (Some v)
      \<longrightarrow> get_lsf_units w r = Inr v)
   \<and> (command_entry w bparams_cmd ''RESOURCE_RESERVE_PER_SLOT'' = Some v \<and> v \<noteq> []
      \<longrightarrow> per_core_reservation w = Inr (v = ''Y'' \<or> v = ''y''))
   \<and> (command_entry w bparams_cmd ''RESOURCE_RESERVE_PER_SLOT'' \<in> {None, Some []}
       \<and> command_entry w lsadmin_cmd ''RESOURCE_RESERVE_PER_SLOT'' = Some v \<and> v \<noteq> []
      \<longrightarrow> per_core_reservation w = Inr (v = ''Y'' \<or> v = ''y''))
   \<and> (command_entry w bparams_cmd ''RESOURCE_RESERVE_PER_SLOT'' \<in> {None, Some []}
       \<and> command_entry w lsadmin_cmd ''RESOURCE_RESERVE_PER_SLOT'' \<in> {None, Some []}
       \<and> file_value w ''lsb.params'' ''RESOURCE_RESERVE_PER_SLOT'' = Inr (Some v)
      \<longrightarrow> per_core_reservation w = Inr (v = ''Y'' \<or> v = ''y''))
   \<and> (command_entry w bparams_cmd ''PARALLEL_SCHED_BY_SLOT'' = Some v \<and> v \<noteq> []
      \<longrightarrow> parallel_sched_by_slot w = Inr (v = ''Y'' \<or> v = ''y''))
   \<and> (command_entry w bparams_cmd ''PARALLEL_SCHED_BY_SLOT'' \<in> {None, Some []}
       \<and> command_entry w lsadmin_cmd ''PARALLEL_SCHED_BY_SLOT'' = Some v \<and> v \<noteq> []
      \<longrightarrow> parallel_sched_by_slot w = Inr (v = ''Y'' \<or> v = ''y''))
   \<and> (command_entry w bparams_cmd ''PARALLEL_SCHED_BY_SLOT'' \<in> {None, Some []}
       \<and> command_entry w lsadmin_cmd ''PARALLEL_SCHED_BY_SLOT'' \<in> {None, Some []}
       \<and> file_value w ''lsb.params'' ''PARALLEL_SCHED_BY_SLOT'' = Inr (Some v)
      \<longrightarrow> parallel_sched_by_slot w = Inr (v = ''Y'' \<or> v = ''y''))"
proof -
  have units: "resolved_value w ''lsf.conf'' ''LSF_UNIT_FOR_LIMITS'' = Inr (Some v)
      \<Longrightarrow> get_lsf_units w r = Inr v"
    by (simp add: get_lsf_units_resolved)
  have per_core: "resolved_value w ''lsb.params'' ''RESOURCE_RESERVE_PER_SLOT'' = Inr (Some v)
      \<Longrightarrow> per_core_reservation w = Inr (v = ''Y'' \<or> v = ''y'')"
    by (simp add: per_core_reservation_resolved)
  have by_slot: "resolved_value w ''lsb.params'' ''PARALLEL_SCHED_BY_SLOT'' = Inr (Some v)
      \<Longrightarrow> parallel_sched_by_slot w = Inr (v = ''Y'' \<or> v = ''y'')"
    by (simp add: parallel_sched_by_slot_resolved)
  show ?thesis
    by (intro conjI impI; elim conjE; rule units per_core by_slot)
      (simp_all add: resolved_value_bparams resolved_value_lsadmin resolved_value_files)
qed


theorem resolver_priority_witness:
  "command_entry (example_cluster (Inr ''LSF_UNIT_FOR_LIMITS = TB'') (Inr ''LSF_UNIT_FOR_LIMITS = GB'')
       None None) bparams_cmd ''LSF_UNIT_FOR_LIMITS'' = Some ''TB''
   \<and> command_entry (example_cluster (Inr ''LSF_UNIT_FOR_LIMITS = TB'') (Inr ''LSF_UNIT_FOR_LIMITS = GB'')
       None None) lsadmin_cmd ''LSF_UNIT_FOR_LIMITS'' = Some ''GB''
   \<and> get_lsf_units (example_cluster (Inr ''LSF_UNIT_FOR_LIMITS = TB'') (Inr ''LSF_UNIT_FOR_LIMITS = GB'')
       None None) False = Inr ''TB''
   \<and> get_lsf_units (example_cluster (Inr ''FOO = 1'') (Inr ''LSF_UNIT_FOR_LIMITS = GB'')
       None None) False = Inr ''GB''
   \<and> get_lsf_units (example_cluster (Inl OSError) (Inr ''FOO = 1'')
       (Some [''LSF_UNIT_FOR_LIMITS=B'']) None) True = Inr ''B''
   \<and> per_core_reservation (example_cluster (Inr ''RESOURCE_RESERVE_PER_SLOT = N'')
       (Inr ''RESOURCE_RESERVE_PER_SLOT = Y'') None None) = Inr False
   \<and> parallel_sched_by_slot (example_cluster (Inl OSError)
       (Inr ''PARALLEL_SCHED_BY_SLOT = y'') None None) = Inr True"
proof -
  let ?tb = "example_cluster (Inr ''LSF_UNIT_FOR_LIMITS = TB'') (Inr ''LSF_UNIT_FOR_LIMITS = GB'')
       None None"
  let ?gb = "example_cluster (Inr ''FOO = 1'') (Inr ''LSF_UNIT_FOR_LIMITS = GB'') None None"
  let ?b = "example_cluster (Inl OSError) (Inr ''FOO = 1'') (Some [''LSF_UNIT_FOR_LIMITS=B'']) None"
  let ?pc = "example_cluster (Inr ''RESOURCE_RESERVE_PER_SLOT = N'')
       (Inr ''RESOURCE_RESERVE_PER_SLOT = Y'') None None"
  let ?bs = "example_cluster (Inl OSError) (Inr ''PARALLEL_SCHED_BY_SLOT = y'') None None"
  have tb: "command_entry ?tb bparams_cmd ''LSF_UNIT_FOR_LIMITS'' = Some ''TB''"
    "command_entry ?tb lsadmin_cmd ''LSF_UNIT_FOR_LIMITS'' = Some ''GB''"
    by (simp_all add: example_eval)
  have gb: "command_entry ?gb bparams_cmd ''LSF_UNIT_FOR_LIMITS'' = None"
    "command_entry ?gb lsadmin_cmd ''LSF_UNIT_FOR_LIMITS'' = Some ''GB''"
    by (simp_all add: example_eval)
  have b: "command_entry ?b bparams_cmd ''LSF_UNIT_FOR_LIMITS'' = None"
    "command_entry ?b lsadmin_cmd ''LSF_UNIT_FOR_LIMITS'' = None"
    "file_value ?b ''lsf.conf'' ''LSF_UNIT_FOR_LIMITS'' = Inr (Some ''B'')"
    by (simp_all add: example_eval)
  have pc: "command_entry ?pc bparams_cmd ''RESOURCE_RESERVE_PER_SLOT'' = Some ''N''"
    by (simp add: example_eval)
  have bs: "command_entry ?bs bparams_cmd ''PARALLEL_SCHED_BY_SLOT'' = None"
    "command_entry ?bs lsadmin_cmd ''PARALLEL_SCHED_BY_SLOT'' = Some ''y''"
    by (simp_all add: example_eval)
  from tb gb b pc bs
    resolver_priority [of ?tb "''TB''" False] resolver_priority [of ?gb "''GB''" False]
    resolver_priority [of ?b "''B''" True] resolver_priority [of ?pc "''N''"]
    resolver_priority [of ?bs "''y''"]
  show ?thesis by simp
qed

text \<open>
  C3, as it is stated, fails when the first probe holds the key with an empty value: the
  \<^verbatim>\<open>bparams\<close> command succeeds and its output has an entry for the key, yet the
  resolver goes on and returns the value of \<^verbatim>\<open>lsadmin\<close>.
\<close>

theorem resolver_priority_counterexample:
  "check_output (example_cluster (Inr ''LSF_UNIT_FOR_LIMITS ='') (Inr ''LSF_UNIT_FOR_LIMITS = GB'')
       None None) bparams_cmd = Inr ''LSF_UNIT_FOR_LIMITS =''
   \<and> tokenize_conf_stream (split_str CHR 0x0A ''LSF_UNIT_FOR_LIMITS ='')
       = [(''LSF_UNIT_FOR_LIMITS'', [])]
   \<and> command_entry (example_cluster (Inr ''LSF_UNIT_FOR_LIMITS ='') (Inr ''LSF_UNIT_FOR_LIMITS = GB'')
       None None) lsadmin_cmd ''LSF_UNIT_FOR_LIMITS'' = Some ''GB''
   \<and> get_lsf_units (example_cluster (Inr ''LSF_UNIT_FOR_LIMITS ='') (Inr ''LSF_UNIT_FOR_LIMITS = GB'')
       None None) False = Inr ''GB''"
  by (simp add: example_eval)

lemma resolved_value_None_iff:
  "resolved_value w filename key = Inr None \<longleftrightarrow>
     command_entry w bparams_cmd key \<in> {None, Some []}
     \<and> command_entry w lsadmin_cmd key \<in> {None, Some []}
     \<and> conf_entry w filename key ''LSF_CONFDIR'' \<in> {Inr None, Inr (Some [])}
     \<and> conf_entry w filename key ''LSF_ENVDIR'' \<in> {Inr None, Inr (Some [])}"
  by (auto simp: resolved_value_def file_value_def truthy_value_def
      split: option.splits sum.splits if_splits)

text \<open>
  C4, as the code has it. The resolved value of a key is absent exactly when each of the
  four probes is unavailable, has no entry for the key, or has an empty value for it, and
  then each resolver returns its default: \<open>MB\<close> for a resource request and \<open>KB\<close> for
  a limit, and \<open>False\<close> for the two flags. When both commands fail and a configuration
  file holds a value for the key that is not empty, that value is returned.
\<close>

theorem default_exactly_when_no_value:
  "(resolved_value w filename key = Inr None \<longleftrightarrow>
      command_entry w bparams_cmd key \<in> {None, Some []}
      \<and> command_entry w lsadmin_cmd key \<in> {None, Some []}
      \<and> conf_entry w filename key ''LSF_CONFDIR'' \<in> {Inr None, Inr (Some [])}
      \<and> conf_entry w filename key ''LSF_ENVDIR'' \<in> {Inr None, Inr (Some [])})
   \<and> (check_output w bparams_cmd = Inl e \<and> check_output w lsadmin_cmd = Inl e'
       \<and> conf_entry w ''lsf.conf'' ''LSF_UNIT_FOR_LIMITS'' ''LSF_CONFDIR'' = Inr (Some v) \<and> v \<noteq> []
      \<longrightarrow> get_lsf_units w r = Inr v)
   \<and> (check_output w bparams_cmd = Inl e \<and> check_output w lsadmin_cmd = Inl e'
       \<and> conf_entry w ''lsf.conf'' ''LSF_UNIT_FOR_LIMITS'' ''LSF_CONFDIR'' \<in> {Inr None, Inr (Some [])}
       \<and> conf_entry w ''lsf.conf'' ''LSF_UNIT_FOR_LIMITS'' ''LSF_ENVDIR'' = Inr (Some v) \<and> v \<noteq> []
      \<longrightarrow> get_lsf_units w r = Inr v)
   \<and> (resolved_value w ''lsf.conf'' ''LSF_UNIT_FOR_LIMITS'' = Inr None
      \<longrightarrow> get_lsf_units w True = Inr ''MB'' \<and> get_lsf_units w False = Inr ''KB'')
   \<and> (resolved_value w ''lsb.params'' ''RESOURCE_RESERVE_PER_SLOT'' = Inr None
      \<longrightarrow> per_core_reservation w = Inr False)
   \<and> (resolved_value w ''lsb.params'' ''PARALLEL_SCHED_BY_SLOT'' = Inr None
      \<longrightarrow> parallel_sched_by_slot w = Inr False)"
proof -
  have cmd: "check_output w c = Inl x \<Longrightarrow> command_entry w c k = None" for c x k
    by (simp add: command_entry_def)
  have units: "resolved_value w ''lsf.conf'' ''LSF_UNIT_FOR_LIMITS'' = Inr (Some v)
      \<Longrightarrow> get_lsf_units w r = Inr v"
    by (simp add: get_lsf_units_resolved)
  show ?thesis
    apply (intro conjI impI)
         apply (rule resolved_value_None_iff)
        apply (elim conjE, rule units)
        apply (simp add: cmd resolved_value_files file_value_confdir)
       apply (elim conjE, rule units)
       apply (simp add: cmd resolved_value_files file_value_envdir truthy_value_def)
      apply (simp_all add: get_lsf_units_resolved per_core_reservation_resolved
        parallel_sched_by_slot_resolved)
    done
qed

theorem default_exactly_when_no_value_witness:
  "get_lsf_units (example_cluster (Inl OSError) (Inl (CalledProcessError 1))
      (Some [''# units'', ''LSF_UNIT_FOR_LIMITS=GB'' @ [CHR 0x0A]]) (Some [''LSF_UNIT_FOR_LIMITS=TB'']))
      False = Inr ''GB''
   \<and> get_lsf_units (example_cluster (Inl OSError) (Inl (CalledProcessError 1))
      (Some [''OTHER=1'']) (Some [''LSF_UNIT_FOR_LIMITS=TB''])) False = Inr ''TB''
   \<and> resolved_value (example_cluster (Inl OSError) (Inl (CalledProcessError 1)) None None)
      ''lsf.conf'' ''LSF_UNIT_FOR_LIMITS'' = Inr None
   \<and> get_lsf_units (example_cluster (Inl OSError) (Inl (CalledProcessError 1)) None None) True
      = Inr ''MB''
   \<and> get_lsf_units (example_cluster (Inl OSError) (Inl (CalledProcessError 1)) None None) False
      = Inr ''KB''
   \<and> per_core_reservation (example_cluster (Inl OSError) (Inl (CalledProcessError 1)) None None)
      = Inr False
   \<and> parallel_sched_by_slot (example_cluster (Inl OSError) (Inl (CalledProcessError 1)) None None)
      = Inr False"
proof -
  let ?c = "example_cluster (Inl OSError) (Inl (CalledProcessError 1))
      (Some [''# units'', ''LSF_UNIT_FOR_LIMITS=GB'' @ [CHR 0x0A]]) (Some [''LSF_UNIT_FOR_LIMITS=TB''])"
  let ?e = "example_cluster (Inl OSError) (Inl (CalledProcessError 1))
      (Some [''OTHER=1'']) (Some [''LSF_UNIT_FOR_LIMITS=TB''])"
  let ?n = "example_cluster (Inl OSError) (Inl (CalledProcessError 1)) None None"
  have cmds: "check_output ?c bparams_cmd = Inl OSError"
    "check_output ?c lsadmin_cmd = Inl (CalledProcessError 1)"
    "check_output ?e bparams_cmd = Inl OSError"
    "check_output ?e lsadmin_cmd = Inl (CalledProcessError 1)"
    by (simp_all add: example_eval)
  have c: "conf_entry ?c ''lsf.conf'' ''LSF_UNIT_FOR_LIMITS'' ''LSF_CONFDIR'' = Inr (Some ''GB'')"
    by (simp add: example_eval)
  have e: "conf_entry ?e ''lsf.conf'' ''LSF_UNIT_FOR_LIMITS'' ''LSF_CONFDIR'' = Inr None"
    "conf_entry ?e ''lsf.conf'' ''LSF_UNIT_FOR_LIMITS'' ''LSF_ENVDIR'' = Inr (Some ''TB'')"
    by (simp_all add: example_eval)
  have n: "command_entry ?n bparams_cmd key = None" "command_entry ?n lsadmin_cmd key = None"
    "conf_entry ?n filename key ''LSF_CONFDIR'' = Inr None"
    "conf_entry ?n filename key ''LSF_ENVDIR'' = Inr None" for key filename
    by (simp_all add: example_eval)
  from cmds c e n
    default_exactly_when_no_value [where w = ?c and v = "''GB''" and r = False]
    default_exactly_when_no_value [where w = ?e and v = "''TB''" and r = False]
    default_exactly_when_no_value [where w = ?n and filename = "''lsf.conf''"
      and key = "''LSF_UNIT_FOR_LIMITS''"]
    default_exactly_when_no_value [where w = ?n and filename = "''lsb.params''"
      and key = "''RESOURCE_RESERVE_PER_SLOT''"]
    default_exactly_when_no_value [where w = ?n and filename = "''lsb.params''"
      and key = "''PARALLEL_SCHED_BY_SLOT''"]
  show ?thesis by simp
qed

text \<open>
  C4, as it is stated, fails on a file that holds the key with an empty value: both
  commands are unavailable, the file is found and has an entry for the key, and the
  default is returned.
\<close>

theorem file_with_empty_value_counterexample:
  "check_output (example_cluster (Inl OSError) (Inl OSError) None (Some [''LSF_UNIT_FOR_LIMITS='']))
      bparams_cmd = Inl OSError
   \<and> check_output (example_cluster (Inl OSError) (Inl OSError) None (Some [''LSF_UNIT_FOR_LIMITS='']))
      lsadmin_cmd = Inl OSError
   \<and> get_conf_file (example_cluster (Inl OSError) (Inl OSError) None (Some [''LSF_UNIT_FOR_LIMITS='']))
      ''lsf.conf'' ''LSF_ENVDIR'' = Some ''/env/sub/lsf.conf''
   \<and> open_lines (example_cluster (Inl OSError) (Inl OSError) None (Some [''LSF_UNIT_FOR_LIMITS='']))
      ''/env/sub/lsf.conf'' = Some [''LSF_UNIT_FOR_LIMITS='']
   \<and> tokenize_conf_stream [''LSF_UNIT_FOR_LIMITS=''] = [(''LSF_UNIT_FOR_LIMITS'', [])]
   \<and> get_lsf_units (example_cluster (Inl OSError) (Inl OSError) None (Some [''LSF_UNIT_FOR_LIMITS='']))
      False = Inr ''KB''"
  by (simp add: example_eval)

subsection \<open>The two flags\<close>

text \<open>
  C8. \<^verbatim>\<open>per_core_reservation\<close> and \<^verbatim>\<open>parallel_sched_by_slot\<close> return
  \<open>True\<close> when the resolved value of their key, which the tokenizer has stripped, is
  \<open>Y\<close> or \<open>y\<close>, and \<open>False\<close> for every other resolved value and when there is
  none: the key is absent everywhere, its value is empty, or every probe fails. The
  values \<open>Y\<close>, \<open>y\<close> and \<open>Y\<close> followed by a blank give \<open>True\<close>.
\<close>

theorem boolean_flag_resolvers:
  "per_core_reservation w =
     (case resolved_value w ''lsb.params'' ''RESOURCE_RESERVE_PER_SLOT'' of
        Inl err \<Rightarrow> Inl err
      | Inr x \<Rightarrow> Inr (x = Some ''Y'' \<or> x = Some ''y''))
   \<and> parallel_sched_by_slot w =
     (case resolved_value w ''lsb.params'' ''PARALLEL_SCHED_BY_SLOT'' of
        Inl err \<Rightarrow> Inl err
      | Inr x \<Rightarrow> Inr (x = Some ''Y'' \<or> x = Some ''y''))
   \<and> per_core_reservation
        (example_cluster (Inr ''RESOURCE_RESERVE_PER_SLOT = Y'') (Inl OSError) None None) = Inr True
   \<and> per_core_reservation
        (example_cluster (Inr ''RESOURCE_RESERVE_PER_SLOT = y'') (Inl OSError) None None) = Inr True
   \<and> per_core_reservation
        (example_cluster (Inr ''RESOURCE_RESERVE_PER_SLOT = Y '') (Inl OSError) None None) = Inr True
   \<and> per_core_reservation
        (example_cluster (Inr ''RESOURCE_RESERVE_PER_SLOT = N'') (Inl OSError) None None) = Inr False
   \<and> per_core_reservation
        (example_cluster (Inr ''RESOURCE_RESERVE_PER_SLOT = YES'') (Inl OSError) None None) = Inr False
   \<and> per_core_reservation
        (example_cluster (Inr ''RESOURCE_RESERVE_PER_SLOT ='') (Inl OSError) None None) = Inr False
   \<and> per_core_reservation
        (example_cluster (Inr ''LSF_UNIT_FOR_LIMITS = Y'') (Inl OSError) None None) = Inr False
   \<and> per_core_reservation (example_cluster (Inl OSError) (Inl OSError) None None) = Inr False
   \<and> parallel_sched_by_slot
        (example_cluster (Inl OSError) (Inr ''PARALLEL_SCHED_BY_SLOT = y '') None None) = Inr True
   \<and> parallel_sched_by_slot
        (example_cluster (Inl OSError) (Inl OSError) None (Some [''PARALLEL_SCHED_BY_SLOT=Y'' @ [CHR 0x0A]]))
        = Inr True
   \<and> parallel_sched_by_slot
        (example_cluster (Inl OSError) (Inl OSError) None (Some [''PARALLEL_SCHED_BY_SLOT=n'' @ [CHR 0x0A]]))
        = Inr False
   \<and> parallel_sched_by_slot (example_cluster (Inl OSError) (Inl OSError) None None) = Inr False"
proof (intro conjI)
  show "per_core_reservation w =
     (case resolved_value w ''lsb.params'' ''RESOURCE_RESERVE_PER_SLOT'' of
        Inl err \<Rightarrow> Inl err
      | Inr x \<Rightarrow> Inr (x = Some ''Y'' \<or> x = Some ''y''))"
    by (rule per_core_reservation_resolved)
  show "parallel_sched_by_slot w =
     (case resolved_value w ''lsb.params'' ''PARALLEL_SCHED_BY_SLOT'' of
        Inl err \<Rightarrow> Inl err
      | Inr x \<Rightarrow> Inr (x = Some ''Y'' \<or> x = Some ''y''))"
    by (rule parallel_sched_by_slot_resolved)
qed (simp_all add: example_eval)

subsection \<open>Units are taken as they are written\<close>

lemma resolved_value_Some_nonempty: "resolved_value w f k = Inr (Some v) \<Longrightarrow> v \<noteq> []"
  by (auto simp: resolved_value_def file_value_def truthy_value_def
      split: option.splits sum.splits if_splits)

text \<open>
  C9, as the code has it. \<^verbatim>\<open>get_lsf_units_from_stream\<close> returns the value of the
  first entry for \<^verbatim>\<open>LSF_UNIT_FOR_LIMITS\<close> as the tokenizer leaves it, stripped and
  in its own case, and \<^verbatim>\<open>get_lsf_units\<close> returns the resolved value, which is the
  first such value that is not empty, unchanged. When that value is not one of \<open>B\<close>,
  \<open>KB\<close>, \<open>MB\<close>, \<open>GB\<close>, \<open>TB\<close>, as for \<open>kb\<close>, \<^verbatim>\<open>parse_memory\<close> fails
  with the assertion error of the converter, for every float and for every int that
  \<^verbatim>\<open>float\<close> accepts; an int too large for a float raises in \<^verbatim>\<open>float\<close> before
  the converter is called.
\<close>

theorem units_not_normalized:
  "get_lsf_units_from_stream ls = map_of (tokenize_conf_stream ls) ''LSF_UNIT_FOR_LIMITS''
   \<and> (resolved_value w ''lsf.conf'' ''LSF_UNIT_FOR_LIMITS'' = Inr (Some v)
      \<longrightarrow> v \<noteq> [] \<and> get_lsf_units w r = Inr v
          \<and> (v \<notin> {''B'', ''KB'', ''MB'', ''GB'', ''TB''}
             \<longrightarrow> parse_memory w (PyFloat f) r = Inl (AssertionError
                   (v @ '' not a valid unit, valid units are ['B', 'KB', 'MB', 'GB', 'TB'].''))
                 \<and> parse_memory w m r =
                   (case py_float m of
                      Inl err \<Rightarrow> Inl err
                    | Inr x \<Rightarrow> Inl (AssertionError
                   (v @ '' not a valid unit, valid units are ['B', 'KB', 'MB', 'GB', 'TB'].'')))))"
  by (auto simp: get_lsf_units_from_stream_def first_value_map_of get_lsf_units_resolved
      parse_memory_def convert_mb_unrecognized py_float_def
      dest: resolved_value_Some_nonempty split: sum.splits)

theorem units_not_normalized_witness:
  "resolved_value (example_cluster (Inl OSError) (Inr ''LSF_UNIT_FOR_LIMITS = kb '') None None)
      ''lsf.conf'' ''LSF_UNIT_FOR_LIMITS'' = Inr (Some ''kb'')
   \<and> get_lsf_units (example_cluster (Inl OSError) (Inr ''LSF_UNIT_FOR_LIMITS = kb '') None None) False
      = Inr ''kb''
   \<and> parse_memory (example_cluster (Inl OSError) (Inr ''LSF_UNIT_FOR_LIMITS = kb '') None None)
        (PyFloat (Finite 2)) False
      = Inl (AssertionError ''kb not a valid unit, valid units are ['B', 'KB', 'MB', 'GB', 'TB'].'')
   \<and> parse_memory (example_cluster (Inl OSError) (Inr ''LSF_UNIT_FOR_LIMITS = kb '') None None)
        (PyInt 2) False
      = Inl (AssertionError ''kb not a valid unit, valid units are ['B', 'KB', 'MB', 'GB', 'TB'].'')"
proof -
  let ?w = "example_cluster (Inl OSError) (Inr ''LSF_UNIT_FOR_LIMITS = kb '') None None"
  have "resolved_value ?w ''lsf.conf'' ''LSF_UNIT_FOR_LIMITS'' = Inr (Some ''kb'')"
    by (simp add: example_eval)
  with units_not_normalized [of _ ?w "''kb''" False "Finite 2" "PyInt 2"]
  show ?thesis by (simp add: two_gigabytes del: float_mul.simps)
qed

text \<open>
  C9, as it is stated, fails on the empty value: with \<^verbatim>\<open>LSF_UNIT_FOR_LIMITS =\<close> in
  the output of \<^verbatim>\<open>bparams\<close> the tokenized value is the empty string, which is none
  of the five symbols; \<^verbatim>\<open>get_lsf_units\<close> does not return it but the default, and
  \<^verbatim>\<open>parse_memory_limit\<close> succeeds.
\<close>

theorem units_not_normalized_counterexample:
  "tokenize_conf_stream (split_str CHR 0x0A ''LSF_UNIT_FOR_LIMITS ='')
      = [(''LSF_UNIT_FOR_LIMITS'', [])]
   \<and> [] \<notin> {''B'', ''KB'', ''MB'', ''GB'', ''TB''}
   \<and> get_lsf_units (example_cluster (Inr ''LSF_UNIT_FOR_LIMITS ='') (Inl OSError) None None) False
      = Inr ''KB''
   \<and> parse_memory_limit (example_cluster (Inr ''LSF_UNIT_FOR_LIMITS ='') (Inl OSError) None None)
        (PyInt 2) = Inr 2097152"
proof -
  let ?w = "example_cluster (Inr ''LSF_UNIT_FOR_LIMITS ='') (Inl OSError) None None"
  have u: "get_lsf_units ?w False = Inr ''KB''"
    by (simp add: example_eval)
  from parse_memory_two_gigabytes(1) [OF u UNITS_simps(2)]
  have "parse_memory_limit ?w (PyInt 2) = Inr 2097152"
    by (simp add: parse_memory_limit_def)
  moreover have "tokenize_conf_stream (split_str CHR 0x0A ''LSF_UNIT_FOR_LIMITS ='')
      = [(''LSF_UNIT_FOR_LIMITS'', [])]"
    by (simp add: strip_def is_space_def)
  ultimately show ?thesis using u by simp
qed

subsection \<open>Empty values\<close>

lemma find_first_match_check_output_update:
  "find_first_match (w\<lparr>check_output := f\<rparr>) d n = find_first_match w d n"
  by (simp add: find_first_match_def find_files_def)

lemma get_conf_file_check_output_update:
  "get_conf_file (w\<lparr>check_output := f\<rparr>) filename env = get_conf_file w filename env"
  by (simp add: get_conf_file_def find_first_match_check_output_update
      cong: option.case_cong if_cong)

lemma conf_entry_check_output_update:
  "conf_entry (w\<lparr>check_output := f\<rparr>) filename key env = conf_entry w filename key env"
  by (simp add: conf_entry_def get_conf_file_check_output_update cong: option.case_cong)

lemma file_value_check_output_update:
  "file_value (w\<lparr>check_output := f\<rparr>) filename key = file_value w filename key"
  by (simp add: file_value_def conf_entry_check_output_update
      cong: option.case_cong sum.case_cong)

lemma command_entry_check_output_update:
  "command_entry (w\<lparr>check_output := (check_output w)(c := Inl e)\<rparr>) c' key =
     (if c' = c then None else command_entry w c' key)"
  by (simp add: command_entry_def)

lemma resolved_value_without_bparams:
  "truthy_value (command_entry w bparams_cmd key) = None \<Longrightarrow>
   resolved_value (w\<lparr>check_output := (check_output w)(bparams_cmd := Inl e)\<rparr>) filename key
     = resolved_value w filename key"
  by (simp add: resolved_value_def command_entry_check_output_update
      file_value_check_output_update bparams_cmd_def lsadmin_cmd_def truthy_value_def
      cong: option.case_cong)

lemma resolved_value_without_lsadmin:
  "truthy_value (command_entry w lsadmin_cmd key) = None \<Longrightarrow>
   resolved_value (w\<lparr>check_output := (check_output w)(lsadmin_cmd := Inl e)\<rparr>) filename key
     = resolved_value w filename key"
  by (simp add: resolved_value_def command_entry_check_output_update
      file_value_check_output_update bparams_cmd_def lsadmin_cmd_def truthy_value_def
      cong: option.case_cong)

text \<open>
  C10. A probe that holds \<^verbatim>\<open>LSF_UNIT_FOR_LIMITS\<close> with an empty value does not end
  the resolution: it counts as a probe that gives nothing. When a command holds the key
  so, \<^verbatim>\<open>get_lsf_units\<close> returns what it returns when that command cannot be run at
  all, and when the file under \<^verbatim>\<open>LSF_CONFDIR\<close> holds it so,
  \<^verbatim>\<open>apply_conf_file\<close> returns what the file under \<^verbatim>\<open>LSF_ENVDIR\<close> gives. The
  resolution goes on with the probes of lower priority: past probes that are unavailable,
  lack the key or hold it with an empty value, the value of the first probe that holds
  one that is not empty is returned, and when there is none the default is returned.
\<close>

theorem empty_value_is_no_answer:
  "(command_entry w bparams_cmd ''LSF_UNIT_FOR_LIMITS'' = Some []
      \<longrightarrow> get_lsf_units w r =
          get_lsf_units (w\<lparr>check_output := (check_output w)(bparams_cmd := Inl OSError)\<rparr>) r)
   \<and> (command_entry w lsadmin_cmd ''LSF_UNIT_FOR_LIMITS'' = Some []
      \<longrightarrow> get_lsf_units w r =
          get_lsf_units (w\<lparr>check_output := (check_output w)(lsadmin_cmd := Inl OSError)\<rparr>) r)
   \<and> (conf_entry w ''lsf.conf'' ''LSF_UNIT_FOR_LIMITS'' ''LSF_CONFDIR'' = Inr (Some [])
      \<longrightarrow> apply_conf_file w get_lsf_units_from_stream ''lsf.conf'' =
          (case conf_entry w ''lsf.conf'' ''LSF_UNIT_FOR_LIMITS'' ''LSF_ENVDIR'' of
             Inl err \<Rightarrow> Inl err
           | Inr y \<Rightarrow> Inr (truthy_value y)))
   \<and> (command_entry w bparams_cmd ''LSF_UNIT_FOR_LIMITS'' \<in> {None, Some []}
       \<and> command_entry w lsadmin_cmd ''LSF_UNIT_FOR_LIMITS'' = Some v \<and> v \<noteq> []
      \<longrightarrow> get_lsf_units w r = Inr v)
   \<and> (command_entry w bparams_cmd ''LSF_UNIT_FOR_LIMITS'' \<in> {None, Some []}
       \<and> command_entry w lsadmin_cmd ''LSF_UNIT_FOR_LIMITS'' \<in> {None, Some []}
       \<and> conf_entry w ''lsf.conf'' ''LSF_UNIT_FOR_LIMITS'' ''LSF_CONFDIR'' = Inr (Some v)
       \<and> v \<noteq> []
      \<longrightarrow> get_lsf_units w r = Inr v)
   \<and> (command_entry w bparams_cmd ''LSF_UNIT_FOR_LIMITS'' \<in> {None, Some []}
       \<and> command_entry w lsadmin_cmd ''LSF_UNIT_FOR_LIMITS'' \<in> {None, Some []}
       \<and> conf_entry w ''lsf.conf'' ''LSF_UNIT_FOR_LIMITS'' ''LSF_CONFDIR'' \<in> {Inr None, Inr (Some [])}
       \<and> conf_entry w ''lsf.conf'' ''LSF_UNIT_FOR_LIMITS'' ''LSF_ENVDIR'' = Inr (Some v)
       \<and> v \<noteq> []
      \<longrightarrow> get_lsf_units w r = Inr v)
   \<and> (command_entry w bparams_cmd ''LSF_UNIT_FOR_LIMITS'' \<in> {None, Some []}
       \<and> command_entry w lsadmin_cmd ''LSF_UNIT_FOR_LIMITS'' \<in> {None, Some []}
       \<and> conf_entry w ''lsf.conf'' ''LSF_UNIT_FOR_LIMITS'' ''LSF_CONFDIR'' \<in> {Inr None, Inr (Some [])}
       \<and> conf_entry w ''lsf.conf'' ''LSF_UNIT_FOR_LIMITS'' ''LSF_ENVDIR'' \<in> {Inr None, Inr (Some [])}
      \<longrightarrow> get_lsf_units w r = Inr (if r then ''MB'' else ''KB''))"
proof (intro conjI impI; (elim conjE)?)
  assume "command_entry w bparams_cmd ''LSF_UNIT_FOR_LIMITS'' = Some []"
  then show "get_lsf_units w r =
      get_lsf_units (w\<lparr>check_output := (check_output w)(bparams_cmd := Inl OSError)\<rparr>) r"
    by (simp add: get_lsf_units_resolved resolved_value_without_bparams truthy_value_def)
next
  assume "command_entry w lsadmin_cmd ''LSF_UNIT_FOR_LIMITS'' = Some []"
  then show "get_lsf_units w r =
      get_lsf_units (w\<lparr>check_output := (check_output w)(lsadmin_cmd := Inl OSError)\<rparr>) r"
    by (simp add: get_lsf_units_resolved resolved_value_without_lsadmin truthy_value_def)
next
  assume "conf_entry w ''lsf.conf'' ''LSF_UNIT_FOR_LIMITS'' ''LSF_CONFDIR'' = Inr (Some [])"
  then show "apply_conf_file w get_lsf_units_from_stream ''lsf.conf'' =
      (case conf_entry w ''lsf.conf'' ''LSF_UNIT_FOR_LIMITS'' ''LSF_ENVDIR'' of
         Inl err \<Rightarrow> Inl err
       | Inr y \<Rightarrow> Inr (truthy_value y))"
    by (simp add: apply_conf_file_units file_value_envdir)
next
  assume "command_entry w bparams_cmd ''LSF_UNIT_FOR_LIMITS'' \<in> {None, Some []}"
    and "command_entry w lsadmin_cmd ''LSF_UNIT_FOR_LIMITS'' = Some v" and "v \<noteq> []"
  then have "resolved_value w ''lsf.conf'' ''LSF_UNIT_FOR_LIMITS'' = Inr (Some v)"
    by (rule resolved_value_lsadmin)
  then show "get_lsf_units w r = Inr v"
    by (simp add: get_lsf_units_resolved)
next
  assume "command_entry w bparams_cmd ''LSF_UNIT_FOR_LIMITS'' \<in> {None, Some []}"
    and "command_entry w lsadmin_cmd ''LSF_UNIT_FOR_LIMITS'' \<in> {None, Some []}"
    and "conf_entry w ''lsf.conf'' ''LSF_UNIT_FOR_LIMITS'' ''LSF_CONFDIR'' = Inr (Some v)"
    and "v \<noteq> []"
  then have "resolved_value w ''lsf.conf'' ''LSF_UNIT_FOR_LIMITS'' = Inr (Some v)"
    by (simp add: resolved_value_files file_value_confdir)
  then show "get_lsf_units w r = Inr v"
    by (simp add: get_lsf_units_resolved)
next
  assume "command_entry w bparams_cmd ''LSF_UNIT_FOR_LIMITS'' \<in> {None, Some []}"
    and "command_entry w lsadmin_cmd ''LSF_UNIT_FOR_LIMITS'' \<in> {None, Some []}"
    and "conf_entry w ''lsf.conf'' ''LSF_UNIT_FOR_LIMITS'' ''LSF_CONFDIR'' \<in> {Inr None, Inr (Some [])}"
    and "conf_entry w ''lsf.conf'' ''LSF_UNIT_FOR_LIMITS'' ''LSF_ENVDIR'' = Inr (Some v)"
    and "v \<noteq> []"
  then have "resolved_value w ''lsf.conf'' ''LSF_UNIT_FOR_LIMITS'' = Inr (Some v)"
    by (simp add: resolved_value_files file_value_envdir truthy_value_def)
  then show "get_lsf_units w r = Inr v"
    by (simp add: get_lsf_units_resolved)
next
  assume "command_entry w bparams_cmd ''LSF_UNIT_FOR_LIMITS'' \<in> {None, Some []}"
    and "command_entry w lsadmin_cmd ''LSF_UNIT_FOR_LIMITS'' \<in> {None, Some []}"
    and "conf_entry w ''lsf.conf'' ''LSF_UNIT_FOR_LIMITS'' ''LSF_CONFDIR'' \<in> {Inr None, Inr (Some [])}"
    and "conf_entry w ''lsf.conf'' ''LSF_UNIT_FOR_LIMITS'' ''LSF_ENVDIR'' \<in> {Inr None, Inr (Some [])}"
  then have "resolved_value w ''lsf.conf'' ''LSF_UNIT_FOR_LIMITS'' = Inr None"
    by (simp add: resolved_value_None_iff)
  then show "get_lsf_units w r = Inr (if r then ''MB'' else ''KB'')"
    by (simp add: get_lsf_units_resolved)
qed

theorem empty_value_is_no_answer_witness:
  "command_entry (example_cluster (Inr ''LSF_UNIT_FOR_LIMITS ='') (Inr ''LSF_UNIT_FOR_LIMITS = GB'')
      None None) bparams_cmd ''LSF_UNIT_FOR_LIMITS'' = Some []
   \<and> get_lsf_units (example_cluster (Inr ''LSF_UNIT_FOR_LIMITS ='') (Inr ''LSF_UNIT_FOR_LIMITS = GB'')
      None None) False = Inr ''GB''
   \<and> command_entry (example_cluster (Inr ''LSF_UNIT_FOR_LIMITS ='') (Inl OSError)
      (Some [''LSF_UNIT_FOR_LIMITS='' @ [CHR 0x0A]]) (Some [''LSF_UNIT_FOR_LIMITS=GB'' @ [CHR 0x0A]]))
      bparams_cmd ''LSF_UNIT_FOR_LIMITS'' = Some []
   \<and> conf_entry (example_cluster (Inr ''LSF_UNIT_FOR_LIMITS ='') (Inl OSError)
      (Some [''LSF_UNIT_FOR_LIMITS='' @ [CHR 0x0A]]) (Some [''LSF_UNIT_FOR_LIMITS=GB'' @ [CHR 0x0A]]))
      ''lsf.conf'' ''LSF_UNIT_FOR_LIMITS'' ''LSF_CONFDIR'' = Inr (Some [])
   \<and> apply_conf_file (example_cluster (Inr ''LSF_UNIT_FOR_LIMITS ='') (Inl OSError)
      (Some [''LSF_UNIT_FOR_LIMITS='' @ [CHR 0x0A]]) (Some [''LSF_UNIT_FOR_LIMITS=GB'' @ [CHR 0x0A]]))
      get_lsf_units_from_stream ''lsf.conf'' = Inr (Some ''GB'')
   \<and> get_lsf_units (example_cluster (Inr ''LSF_UNIT_FOR_LIMITS ='') (Inl OSError)
      (Some [''LSF_UNIT_FOR_LIMITS='' @ [CHR 0x0A]]) (Some [''LSF_UNIT_FOR_LIMITS=GB'' @ [CHR 0x0A]]))
      False = Inr ''GB''
   \<and> get_lsf_units (example_cluster (Inr ''LSF_UNIT_FOR_LIMITS ='') (Inr ''LSF_UNIT_FOR_LIMITS=  '')
      (Some [''LSF_UNIT_FOR_LIMITS='' @ [CHR 0x0A]]) None) True = Inr ''MB''"
proof -
  let ?a = "example_cluster (Inr ''LSF_UNIT_FOR_LIMITS ='') (Inr ''LSF_UNIT_FOR_LIMITS = GB'')
      None None"
  let ?f = "example_cluster (Inr ''LSF_UNIT_FOR_LIMITS ='') (Inl OSError)
      (Some [''LSF_UNIT_FOR_LIMITS='' @ [CHR 0x0A]]) (Some [''LSF_UNIT_FOR_LIMITS=GB'' @ [CHR 0x0A]])"
  let ?b = "example_cluster (Inr ''LSF_UNIT_FOR_LIMITS ='') (Inr ''LSF_UNIT_FOR_LIMITS=  '')
      (Some [''LSF_UNIT_FOR_LIMITS='' @ [CHR 0x0A]]) None"
  note inst = empty_value_is_no_answer
  have a: "command_entry ?a bparams_cmd ''LSF_UNIT_FOR_LIMITS'' = Some []"
    "command_entry ?a lsadmin_cmd ''LSF_UNIT_FOR_LIMITS'' = Some ''GB''"
    by (simp_all add: example_eval)
  with inst [of ?a False "''GB''", THEN conjunct2, THEN conjunct2, THEN conjunct2, THEN conjunct1]
  have a': "get_lsf_units ?a False = Inr ''GB''"
    by simp
  have f: "command_entry ?f bparams_cmd ''LSF_UNIT_FOR_LIMITS'' = Some []"
    "command_entry ?f lsadmin_cmd ''LSF_UNIT_FOR_LIMITS'' = None"
    "conf_entry ?f ''lsf.conf'' ''LSF_UNIT_FOR_LIMITS'' ''LSF_CONFDIR'' = Inr (Some [])"
    "conf_entry ?f ''lsf.conf'' ''LSF_UNIT_FOR_LIMITS'' ''LSF_ENVDIR'' = Inr (Some ''GB'')"
    by (simp_all add: example_eval)
  with inst [of ?f False "''GB''", THEN conjunct2, THEN conjunct2, THEN conjunct1]
  have f': "apply_conf_file ?f get_lsf_units_from_stream ''lsf.conf'' = Inr (Some ''GB'')"
    by (simp add: truthy_value_def)
  from f inst [of ?f False "''GB''", THEN conjunct2, THEN conjunct2, THEN conjunct2,
      THEN conjunct2, THEN conjunct2, THEN conjunct1]
  have f'': "get_lsf_units ?f False = Inr ''GB''"
    by simp
  have b: "command_entry ?b bparams_cmd ''LSF_UNIT_FOR_LIMITS'' = Some []"
    "command_entry ?b lsadmin_cmd ''LSF_UNIT_FOR_LIMITS'' = Some []"
    "conf_entry ?b ''lsf.conf'' ''LSF_UNIT_FOR_LIMITS'' ''LSF_CONFDIR'' = Inr (Some [])"
    "conf_entry ?b ''lsf.conf'' ''LSF_UNIT_FOR_LIMITS'' ''LSF_ENVDIR'' = Inr None"
    by (simp_all add: example_eval)
  with inst [of ?b True, THEN conjunct2, THEN conjunct2, THEN conjunct2,
      THEN conjunct2, THEN conjunct2, THEN conjunct2]
  have b': "get_lsf_units ?b True = Inr ''MB''"
    by simp
  from a a' f f' f'' b' show ?thesis
    by simp
qed

end
